theory Spec2Isabelle
  imports Main
begin

section \<open>ConsultEase: the application object and its environment\<close>

text \<open>
  The development follows \<^verbatim>\<open>central_system/main.py\<close> (class \<^verbatim>\<open>ConsultEaseApp\<close>) and
  \<^verbatim>\<open>scripts/migrations/add_consultation_response_fields.py\<close>.

  The application is glue code: almost every statement is a call into the GUI toolkit, a
  controller, a service or the database layer. A call is modelled as an \<^emph>\<open>event\<close>
  appended to the trace kept in the application state; what the call answers (a value, or
  an exception) is read from an environment, as a function of the events so far and of the
  call. The environment is arbitrary, so every theorem holds whatever the callees do.
  Calls of \<^verbatim>\<open>logger\<close> neither raise nor return anything and are left out. The callees
  raise subclasses of \<^verbatim>\<open>Exception\<close> only; \<^verbatim>\<open>sys.exit\<close> is an outcome of its own, which
  \<^verbatim>\<open>except Exception\<close> does not catch. A callee does not call back into the application
  before it returns.
\<close>

subsection \<open>Values\<close>

datatype exn = Exception string | AttributeError string

fun str_of_exn :: "exn \<Rightarrow> string" where
  "str_of_exn (Exception m) = m"
| "str_of_exn (AttributeError m) = m"

text \<open>Python values as a configuration file holds them; \<open>PObj\<close> is any other object.\<close>

datatype pyval =
    PNone
  | PBool bool
  | PInt int
  | PStr string
  | PList "pyval list"
  | PDict "(string \<times> pyval) list"
  | PObj

record student =
  student_id :: int
  student_name :: string

record faculty =
  faculty_id :: int
  faculty_name :: string

record consultation =
  consultation_id :: int

record admin =
  admin_username :: string
  admin_password_hash :: "string option"
  admin_email :: "string option"
  admin_force_change_password :: bool

datatype window = LoginWindow | DashboardWindow | AdminLoginWindow | AdminDashboardWindow

datatype controller =
    RFIDController
  | FacultyController
  | ConsultationController
  | AdminController
  | FacultyResponseController

datatype service_type = DATABASE | MQTT | UI

text \<open>The bound methods that the application hands to other objects.\<close>

datatype callable =
    Ref_start_database_service
  | Ref_stop_database_service
  | Ref_check_database_health
  | Ref_start_mqtt_service
  | Ref_stop_mqtt_service
  | Ref_check_mqtt_health
  | Ref_start_ui_service
  | Ref_stop_ui_service
  | Ref_check_ui_health
  | Ref_handle_rfid_scan
  | Ref_login_window_handle_rfid_scan
  | Ref_handle_faculty_updated

subsection \<open>Events: the calls the application makes\<close>

datatype event =
    Import string
  | Fn string
  | SetStyleSheet string
  | Apply_stylesheet pyval
  | Register_service service_type callable callable callable
  | New_controller controller
  | Controller_start controller
  | Register_callback callable
  | New_transition_manager nat
  | Get_admin_by_username string
  | Create_admin string string string bool
  | Hash_password string
  | Update_admin string string string bool
  | Get_faculty_by_name string
  | Create_faculty string string string bool
  | New_window window
  | IsVisible window
  | Hide window
  | Show_window window
  | ShowFullScreen window
  | Transition window window
  | Set_student window student
  | Get_available_faculty
  | Get_all_faculty
  | Update_faculty_list window "faculty list"
  | Get_student_consultations int
  | Update_consultation_history window "consultation list"
  | Create_consultation int int string string
  | Show_error window string
  | Show_success window string
  | SingleShot nat callable

record env =
  raises :: "event list \<Rightarrow> event \<Rightarrow> exn option"
  bool_of :: "event list \<Rightarrow> event \<Rightarrow> bool"
  string_of :: "event list \<Rightarrow> event \<Rightarrow> string"
  config_of :: "event list \<Rightarrow> event \<Rightarrow> pyval"
  faculty_of :: "event list \<Rightarrow> event \<Rightarrow> faculty list"
  consultations_of :: "event list \<Rightarrow> event \<Rightarrow> consultation list"
  consultation_of :: "event list \<Rightarrow> event \<Rightarrow> consultation option"
  admin_of :: "event list \<Rightarrow> event \<Rightarrow> admin option"
  found_of :: "event list \<Rightarrow> event \<Rightarrow> bool"

subsection \<open>The application state and its computations\<close>

record app =
  login_window :: "window option"
  dashboard_window :: "window option"
  admin_login_window :: "window option"
  admin_dashboard_window :: "window option"
  current_student :: "student option"
  fullscreen :: bool
  trace :: "event list"

datatype 'a outcome = Returned 'a | Raised exn | Exited int

type_synonym 'a m = "app \<Rightarrow> 'a outcome \<times> app"

definition ret :: "'a \<Rightarrow> 'a m" where
  "ret x = (\<lambda>s. (Returned x, s))"

definition raise :: "exn \<Rightarrow> 'a m" where
  "raise e = (\<lambda>s. (Raised e, s))"

definition sys_exit :: "int \<Rightarrow> 'a m" where
  "sys_exit n = (\<lambda>s. (Exited n, s))"

definition bind :: "'a m \<Rightarrow> ('a \<Rightarrow> 'b m) \<Rightarrow> 'b m" where
  "bind c f = (\<lambda>s. case c s of
      (Returned a, s') \<Rightarrow> f a s'
    | (Raised e, s') \<Rightarrow> (Raised e, s')
    | (Exited n, s') \<Rightarrow> (Exited n, s'))"

text \<open>\<^verbatim>\<open>try: c  except Exception as e: h e\<close>\<close>

definition try_except :: "'a m \<Rightarrow> (exn \<Rightarrow> 'a m) \<Rightarrow> 'a m" where
  "try_except c h = (\<lambda>s. case c s of
      (Returned a, s') \<Rightarrow> (Returned a, s')
    | (Raised e, s') \<Rightarrow> h e s'
    | (Exited n, s') \<Rightarrow> (Exited n, s'))"

definition get :: "(app \<Rightarrow> 'a) \<Rightarrow> 'a m" where
  "get f = (\<lambda>s. (Returned (f s), s))"

definition modify :: "(app \<Rightarrow> app) \<Rightarrow> unit m" where
  "modify f = (\<lambda>s. (Returned (), f s))"

definition lift :: "exn + 'a \<Rightarrow> 'a m" where
  "lift r = (case r of Inl e \<Rightarrow> raise e | Inr a \<Rightarrow> ret a)"

text \<open>A call: the event joins the trace, and the environment raises or answers.\<close>

definition call :: "env \<Rightarrow> event \<Rightarrow> (event list \<Rightarrow> event \<Rightarrow> 'a) \<Rightarrow> 'a m" where
  "call E ev answer = (\<lambda>s.
     (case raises E (trace s) ev of
        Some e \<Rightarrow> Raised e
      | None \<Rightarrow> Returned (answer (trace s) ev),
      s\<lparr>trace := trace s @ [ev]\<rparr>))"

definition call_unit :: "env \<Rightarrow> event \<Rightarrow> unit m" where
  "call_unit E ev = call E ev (\<lambda>h e. ())"

subsection \<open>The theme preference\<close>

text \<open>\<^verbatim>\<open>obj.get(key, default)\<close>: a dictionary answers, anything else has no \<^verbatim>\<open>get\<close>.\<close>

definition py_get :: "pyval \<Rightarrow> string \<Rightarrow> pyval \<Rightarrow> exn + pyval" where
  "py_get obj k d = (case obj of
      PDict kvs \<Rightarrow> Inr (case map_of kvs k of Some v \<Rightarrow> v | None \<Rightarrow> d)
    | _ \<Rightarrow> Inl (AttributeError ''get''))"

text \<open>\<^verbatim>\<open>config.get('ui', {}).get('theme', 'dark')\<close>\<close>

definition configured_theme :: "pyval \<Rightarrow> exn + pyval" where
  "configured_theme config = (case py_get config ''ui'' (PDict []) of
      Inl e \<Rightarrow> Inl e
    | Inr ui \<Rightarrow> py_get ui ''theme'' (PStr ''dark''))"

text \<open>Reading the configured theme: the import, \<^verbatim>\<open>get_config()\<close> and the two lookups.\<close>

definition read_theme :: "env \<Rightarrow> pyval m" where
  "read_theme E =
     bind (call_unit E (Import ''central_system.utils.config_manager'')) (\<lambda>_.
     bind (call E (Fn ''get_config'') (config_of E)) (\<lambda>config.
     lift (configured_theme config)))"

definition get_theme_preference :: "env \<Rightarrow> pyval m" where
  "get_theme_preference E =
     try_except
       (bind (read_theme E) (\<lambda>theme.
        ret (if theme \<notin> set [PStr ''light'', PStr ''dark''] then PStr ''dark'' else theme)))
       (\<lambda>e. ret (PStr ''dark''))"

subsection \<open>Windows\<close>

definition new_window :: "env \<Rightarrow> window \<Rightarrow> window m" where
  "new_window E w = bind (call_unit E (New_window w)) (\<lambda>_. ret w)"

text \<open>\<^verbatim>\<open>self.w and self.w.isVisible()\<close>\<close>

definition exists_and_visible :: "env \<Rightarrow> window option \<Rightarrow> bool m" where
  "exists_and_visible E wo = (case wo of
      None \<Rightarrow> ret False
    | Some w \<Rightarrow> call E (IsVisible w) (bool_of E))"

text \<open>The \<^verbatim>\<open>if / elif\<close> chain that picks the active window.\<close>

fun active_window :: "env \<Rightarrow> window option list \<Rightarrow> window option m" where
  "active_window E [] = ret None"
| "active_window E (wo # rest) =
     bind (exists_and_visible E wo) (\<lambda>v. if v then ret wo else active_window E rest)"

text \<open>\<^verbatim>\<open>if self.w: self.w.hide()\<close>, for each of the other windows in turn.\<close>

definition hide_if_exists :: "env \<Rightarrow> window option \<Rightarrow> unit m" where
  "hide_if_exists E wo = (case wo of None \<Rightarrow> ret () | Some w \<Rightarrow> call_unit E (Hide w))"

fun hide_all :: "env \<Rightarrow> window option list \<Rightarrow> unit m" where
  "hide_all E [] = ret ()"
| "hide_all E (wo # rest) = bind (hide_if_exists E wo) (\<lambda>_. hide_all E rest)"

text \<open>The windows among \<open>ws\<close> that exist.\<close>

fun existing :: "window option list \<Rightarrow> window list" where
  "existing [] = []"
| "existing (None # ws) = existing ws"
| "existing (Some w # ws) = w # existing ws"

text \<open>The transition from the active window, or a plain \<^verbatim>\<open>show\<close>.\<close>

definition bring_up :: "env \<Rightarrow> window option \<Rightarrow> window \<Rightarrow> unit m" where
  "bring_up E active w = (case active of
      Some a \<Rightarrow> call_unit E (Transition a w)
    | None \<Rightarrow>
        bind (call_unit E (Show_window w)) (\<lambda>_.
        bind (get fullscreen) (\<lambda>fs.
        if fs then call_unit E (ShowFullScreen w) else ret ())))"

text \<open>
  The part that the \<^verbatim>\<open>show_..._window\<close> methods share: find the active window among
  the other ones, hide the other ones, bring the window up.
\<close>

definition switch_to :: "env \<Rightarrow> window option list \<Rightarrow> window \<Rightarrow> unit m" where
  "switch_to E others w =
     bind (active_window E others) (\<lambda>active.
     bind (hide_all E others) (\<lambda>_.
     bring_up E active w))"

definition show_login_window :: "env \<Rightarrow> unit m" where
  "show_login_window E =
     bind (get login_window) (\<lambda>lw0.
     bind (case lw0 of
             None \<Rightarrow> bind (new_window E LoginWindow) (\<lambda>w.
                     bind (modify (\<lambda>s. s\<lparr>login_window := Some w\<rparr>)) (\<lambda>_. ret w))
           | Some w \<Rightarrow> ret w) (\<lambda>lw.
     bind (call_unit E (Register_callback Ref_login_window_handle_rfid_scan)) (\<lambda>_.
     bind (get dashboard_window) (\<lambda>dw.
     bind (get admin_login_window) (\<lambda>alw.
     bind (get admin_dashboard_window) (\<lambda>adw.
     bind (switch_to E [dw, alw, adw] lw) (\<lambda>_.
     modify (\<lambda>s. s\<lparr>current_student := None\<rparr>))))))))"

subsection \<open>The nine service callables\<close>

definition start_database_service :: "env \<Rightarrow> bool m" where
  "start_database_service E =
     try_except
       (bind (call_unit E (Import ''central_system.models.base'')) (\<lambda>_.
        bind (call_unit E (Fn ''get_db'')) (\<lambda>db.
        ret True)))
       (\<lambda>e. ret False)"

definition stop_database_service :: "env \<Rightarrow> bool m" where
  "stop_database_service E =
     try_except
       (bind (call_unit E (Import ''central_system.models.base'')) (\<lambda>_.
        bind (call_unit E (Fn ''get_db'')) (\<lambda>db.
        ret True)))
       (\<lambda>e. ret False)"

definition check_database_health :: "env \<Rightarrow> bool m" where
  "check_database_health E =
     try_except
       (bind (call_unit E (Import ''central_system.models.base'')) (\<lambda>_.
        bind (call_unit E (Fn ''get_db'')) (\<lambda>db.
        ret True)))
       (\<lambda>e. ret False)"

definition start_mqtt_service :: "env \<Rightarrow> bool m" where
  "start_mqtt_service E =
     try_except
       (bind (call_unit E (Fn ''get_async_mqtt_service'')) (\<lambda>mqtt_service.
        bind (call_unit E (Fn ''mqtt_service.connect'')) (\<lambda>_.
        ret True)))
       (\<lambda>e. ret False)"

definition stop_mqtt_service :: "env \<Rightarrow> bool m" where
  "stop_mqtt_service E =
     try_except
       (bind (call_unit E (Fn ''get_async_mqtt_service'')) (\<lambda>mqtt_service.
        bind (call_unit E (Fn ''mqtt_service.disconnect'')) (\<lambda>_.
        ret True)))
       (\<lambda>e. ret False)"

definition check_mqtt_health :: "env \<Rightarrow> bool m" where
  "check_mqtt_health E =
     try_except
       (bind (call_unit E (Fn ''get_async_mqtt_service'')) (\<lambda>mqtt_service.
        call E (Fn ''mqtt_service.is_connected'') (bool_of E)))
       (\<lambda>e. ret False)"

definition start_ui_service :: "env \<Rightarrow> bool m" where
  "start_ui_service E =
     try_except
       (bind (show_login_window E) (\<lambda>_. ret True))
       (\<lambda>e. ret False)"

definition stop_ui_service :: "env \<Rightarrow> bool m" where
  "stop_ui_service E = try_except (ret True) (\<lambda>e. ret False)"

definition check_ui_health :: "env \<Rightarrow> bool m" where
  "check_ui_health E = try_except (ret True) (\<lambda>e. ret False)"

subsection \<open>Registration with the system coordinator\<close>

definition register_database :: event where
  "register_database = Register_service DATABASE
     Ref_start_database_service Ref_stop_database_service Ref_check_database_health"

definition register_mqtt :: event where
  "register_mqtt = Register_service MQTT
     Ref_start_mqtt_service Ref_stop_mqtt_service Ref_check_mqtt_health"

definition register_ui :: event where
  "register_ui = Register_service UI
     Ref_start_ui_service Ref_stop_ui_service Ref_check_ui_health"

definition register_system_services :: "env \<Rightarrow> unit m" where
  "register_system_services E =
     try_except
       (bind (call_unit E (Import ''central_system.services.system_coordinator.ServiceType'')) (\<lambda>_.
        bind (call_unit E register_database) (\<lambda>_.
        bind (call_unit E register_mqtt) (\<lambda>_.
        call_unit E register_ui))))
       (\<lambda>e. ret ())"




text \<open>The calls \<open>evs\<close>, made in this order after the history \<open>h\<close>, all return.\<close>

fun no_raise :: "env \<Rightarrow> event list \<Rightarrow> event list \<Rightarrow> bool" where
  "no_raise E h [] = True"
| "no_raise E h (ev # evs) = (raises E h ev = None \<and> no_raise E (h @ [ev]) evs)"

text \<open>The events a computation adds to the trace of \<open>s\<close>.\<close>

definition emitted :: "'a m \<Rightarrow> app \<Rightarrow> event list" where
  "emitted c s = drop (length (trace s)) (trace (snd (c s)))"

subsection \<open>Initialisation\<close>

text \<open>A sequence of statements that return nothing.\<close>

fun seq :: "unit m list \<Rightarrow> unit m" where
  "seq [] = ret ()"
| "seq (c # cs) = bind c (\<lambda>_. seq cs)"

text \<open>Truth value of an optional string attribute: \<^verbatim>\<open>None\<close> and \<^verbatim>\<open>''\<close> are false.\<close>

definition truthy :: "string option \<Rightarrow> bool" where
  "truthy v = (case v of None \<Rightarrow> False | Some x \<Rightarrow> x \<noteq> [])"

definition create_default_admin :: "env \<Rightarrow> unit m" where
  "create_default_admin E =
     call_unit E (Create_admin ''admin'' ''TempPass123!'' ''admin@consultease.local'' True)"

definition emergency_admin_repair :: "env \<Rightarrow> bool m" where
  "emergency_admin_repair E =
     try_except
       (bind (call E (Get_admin_by_username ''admin'') (admin_of E)) (\<lambda>found.
        bind (case found of
                Some a \<Rightarrow>
                  bind (call_unit E (Import ''central_system.models.admin'')) (\<lambda>_.
                  bind (call_unit E (Import ''central_system.models.base'')) (\<lambda>_.
                  bind (call_unit E (Fn ''get_db'')) (\<lambda>db.
                  bind (call_unit E (Fn ''db.query(Admin).filter'')) (\<lambda>_.
                  bind (call E (Hash_password ''TempPass123!'') (string_of E)) (\<lambda>h.
                  bind (call_unit E (Update_admin ''admin'' ''admin@consultease.local'' h True)) (\<lambda>_.
                  call_unit E (Fn ''db.commit'')))))))
              | None \<Rightarrow> create_default_admin E) (\<lambda>_.
        bind (call E (Get_admin_by_username ''admin'') (admin_of E)) (\<lambda>again.
        ret (case again of None \<Rightarrow> False | Some a \<Rightarrow> truthy (admin_password_hash a))))))
       (\<lambda>e. ret False)"

definition verify_admin_account_startup :: "env \<Rightarrow> unit m" where
  "verify_admin_account_startup E =
     try_except
       (bind (call E (Get_admin_by_username ''admin'') (admin_of E)) (\<lambda>found.
        case found of
          Some a \<Rightarrow>
            if \<not> (truthy (admin_password_hash a) \<and> truthy (admin_email a))
            then bind (emergency_admin_repair E) (\<lambda>_. ret ())
            else ret ()
        | None \<Rightarrow> create_default_admin E))
       (\<lambda>e. try_except (bind (emergency_admin_repair E) (\<lambda>_. ret ())) (\<lambda>repair_error. ret ()))"

definition ensure_dr_john_smith_available :: "env \<Rightarrow> unit m" where
  "ensure_dr_john_smith_available E =
     try_except
       (bind (call E (Get_faculty_by_name ''Dr. John Smith'') (found_of E)) (\<lambda>found.
        if \<not> found
        then call_unit E
               (Create_faculty ''Dr. John Smith'' ''Computer Science'' ''A1:B2:C3:D4:E5:F6'' True)
        else ret ()))
       (\<lambda>e. ret ())"

text \<open>The stylesheet of the theme system, with the older stylesheet as the fallback.\<close>

definition apply_theme :: "env \<Rightarrow> unit m" where
  "apply_theme E =
     try_except
       (bind (call E (Fn ''ConsultEaseTheme.get_base_stylesheet'') (string_of E)) (\<lambda>sheet.
        call_unit E (SetStyleSheet sheet)))
       (\<lambda>e. try_except
              (bind (get_theme_preference E) (\<lambda>theme. call_unit E (Apply_stylesheet theme)))
              (\<lambda>e2. ret ()))"

text \<open>\<^verbatim>\<open>__init__\<close> up to the registration of the services.\<close>

definition init_prefix :: "env \<Rightarrow> unit m" where
  "init_prefix E = seq
     [call_unit E (Fn ''QApplication''),
      call_unit E (Fn ''app.setApplicationName''),
      call_unit E (Fn ''icons.initialize''),
      apply_theme E,
      call_unit E (Import ''central_system.utils.hardware_validator''),
      call_unit E (Fn ''log_hardware_status''),
      call_unit E (Fn ''init_db''),
      call_unit E (Import ''central_system.utils.system_monitor''),
      call_unit E (Fn ''start_system_monitoring''),
      call_unit E (Import ''central_system.services.system_coordinator''),
      call_unit E (Fn ''get_system_coordinator''),
      register_system_services E]"

definition start_system :: event where
  "start_system = Fn ''system_coordinator.start_system''"

definition new_controllers :: "env \<Rightarrow> unit m" where
  "new_controllers E = seq
     [call_unit E (New_controller RFIDController),
      call_unit E (New_controller FacultyController),
      call_unit E (New_controller ConsultationController),
      call_unit E (New_controller AdminController),
      call_unit E (New_controller FacultyResponseController)]"

text \<open>The calls that construct the five controllers, in the order of the source.\<close>

definition controllers :: "event list" where
  "controllers = [New_controller RFIDController, New_controller FacultyController,
     New_controller ConsultationController, New_controller AdminController,
     New_controller FacultyResponseController]"

text \<open>\<^verbatim>\<open>__init__\<close> after the controllers are there.\<close>

definition init_rest :: "env \<Rightarrow> bool \<Rightarrow> unit m" where
  "init_rest E fs = seq
     [bind (call E (Fn ''admin_controller.is_first_time_setup'') (bool_of E)) (\<lambda>first_time.
        if first_time then ret ()
        else bind (call_unit E (Fn ''admin_controller.ensure_default_admin'')) (\<lambda>_.
             verify_admin_account_startup E)),
      modify (\<lambda>s. s\<lparr>login_window := None, dashboard_window := None,
                     admin_login_window := None, admin_dashboard_window := None\<rparr>),
      call_unit E (Controller_start RFIDController),
      call_unit E (Register_callback Ref_handle_rfid_scan),
      call_unit E (Controller_start FacultyController),
      call_unit E (Controller_start ConsultationController),
      call_unit E (Controller_start FacultyResponseController),
      ensure_dr_john_smith_available E,
      modify (\<lambda>s. s\<lparr>current_student := None\<rparr>),
      call_unit E (New_transition_manager 300),
      try_except
        (bind (call_unit E (Import ''central_system.services'')) (\<lambda>_.
         call_unit E (Fn ''get_rfid_service'')))
        (\<lambda>e. ret ()),
      modify (\<lambda>s. s\<lparr>fullscreen := fs\<rparr>)]"

definition init :: "env \<Rightarrow> bool \<Rightarrow> unit m" where
  "init E fs =
     bind (init_prefix E) (\<lambda>_.
     bind (call E start_system (bool_of E)) (\<lambda>started.
     bind (if \<not> started then sys_exit 1 else ret ()) (\<lambda>_.
     bind (new_controllers E) (\<lambda>_.
     init_rest E fs))))"

text \<open>The object before \<^verbatim>\<open>__init__\<close> runs, in a process that has made no call yet.\<close>

definition fresh :: app where
  "fresh = \<lparr>login_window = None, dashboard_window = None, admin_login_window = None,
            admin_dashboard_window = None, current_student = None, fullscreen = False,
            trace = []\<rparr>"

fun is_new_controller :: "event \<Rightarrow> bool" where
  "is_new_controller (New_controller c) = True"
| "is_new_controller ev = False"

subsection \<open>The dashboard and its refresh timer\<close>

definition refresh_timer :: event where
  "refresh_timer = SingleShot 5000 Ref_handle_faculty_updated"

definition show_dashboard_window :: "env \<Rightarrow> student option \<Rightarrow> unit m" where
  "show_dashboard_window E student_data =
     bind (modify (\<lambda>s. s\<lparr>current_student := student_data\<rparr>)) (\<lambda>_.
     bind (get dashboard_window) (\<lambda>dw0.
     bind (case dw0 of
             None \<Rightarrow> bind (new_window E DashboardWindow) (\<lambda>w.
                     bind (modify (\<lambda>s. s\<lparr>dashboard_window := Some w\<rparr>)) (\<lambda>_. ret w))
           | Some w \<Rightarrow> ret w) (\<lambda>dw.
     bind (case student_data of
             None \<Rightarrow> ret ()
           | Some st \<Rightarrow>
               bind (call_unit E (Set_student dw st)) (\<lambda>_.
               bind (call E Get_available_faculty (faculty_of E)) (\<lambda>available_faculty.
               bind (call_unit E (Update_faculty_list dw available_faculty)) (\<lambda>_.
               bind (call E (Get_student_consultations (student_id st)) (consultations_of E))
                 (\<lambda>consultation_history.
               call_unit E (Update_consultation_history dw consultation_history)))))) (\<lambda>_.
     bind (get login_window) (\<lambda>lw.
     bind (get admin_login_window) (\<lambda>alw.
     bind (get admin_dashboard_window) (\<lambda>adw.
     bind (switch_to E [lw, alw, adw] dw) (\<lambda>_.
     call_unit E refresh_timer))))))))"

text \<open>\<^verbatim>\<open>if self.w and self.w.isVisible(): body\<close>\<close>

definition when_visible :: "env \<Rightarrow> window option \<Rightarrow> (window \<Rightarrow> unit m) \<Rightarrow> unit m" where
  "when_visible E wo body = (case wo of
      None \<Rightarrow> ret ()
    | Some w \<Rightarrow> bind (call E (IsVisible w) (bool_of E)) (\<lambda>v. if v then body w else ret ()))"

text \<open>The two refreshes of \<^verbatim>\<open>handle_faculty_updated\<close>: the dashboard, then the admin dashboard.\<close>

definition refresh_dashboard :: "env \<Rightarrow> unit m" where
  "refresh_dashboard E =
     bind (get dashboard_window) (\<lambda>dw.
     when_visible E dw (\<lambda>w.
       bind (call E Get_available_faculty (faculty_of E)) (\<lambda>available_faculty.
       bind (call_unit E (Update_faculty_list w available_faculty)) (\<lambda>_.
       call_unit E refresh_timer))))"

definition refresh_admin_dashboard :: "env \<Rightarrow> unit m" where
  "refresh_admin_dashboard E =
     bind (get admin_dashboard_window) (\<lambda>adw.
     when_visible E adw (\<lambda>w.
       bind (call E Get_all_faculty (faculty_of E)) (\<lambda>all_faculty.
       call_unit E (Update_faculty_list w all_faculty))))"

definition handle_faculty_updated :: "env \<Rightarrow> unit m" where
  "handle_faculty_updated E =
     try_except
       (bind (refresh_dashboard E) (\<lambda>_. refresh_admin_dashboard E))
       (\<lambda>e. ret ())"

subsection \<open>RFID scans\<close>

definition handle_student_authenticated :: "env \<Rightarrow> student \<Rightarrow> unit m" where
  "handle_student_authenticated E student_data =
     bind (modify (\<lambda>s. s\<lparr>current_student := Some student_data\<rparr>)) (\<lambda>_.
     show_dashboard_window E (Some student_data))"

definition handle_rfid_scan :: "env \<Rightarrow> student option \<Rightarrow> string \<Rightarrow> unit m" where
  "handle_rfid_scan E student rfid_uid = (case student of
      Some st \<Rightarrow> handle_student_authenticated E st
    | None \<Rightarrow>
        bind (get login_window) (\<lambda>lw.
        case lw of
          Some w \<Rightarrow> call_unit E (Show_error w (''Unknown RFID tag: '' @ rfid_uid))
        | None \<Rightarrow> ret ()))"

text \<open>A window is brought up by \<^verbatim>\<open>show\<close> or by a transition to it.\<close>

fun brings_up :: "window \<Rightarrow> event \<Rightarrow> bool" where
  "brings_up w (Show_window w') = (w = w')"
| "brings_up w (Transition a w') = (w = w')"
| "brings_up w ev = False"

fun is_show_error :: "event \<Rightarrow> bool" where
  "is_show_error (Show_error w msg) = True"
| "is_show_error ev = False"

subsection \<open>Consultation requests\<close>

definition show_error_if_exists :: "env \<Rightarrow> window option \<Rightarrow> string \<Rightarrow> unit m" where
  "show_error_if_exists E wo msg = (case wo of
      None \<Rightarrow> ret ()
    | Some w \<Rightarrow> call_unit E (Show_error w msg))"

definition handle_consultation_request ::
  "env \<Rightarrow> faculty \<Rightarrow> string \<Rightarrow> string \<Rightarrow> (bool \<times> string) m" where
  "handle_consultation_request E fac message course_code =
     bind (get current_student) (\<lambda>cs.
     case cs of
       None \<Rightarrow> raise (AttributeError ''id'')
     | Some st \<Rightarrow>
         try_except
           (bind (call E (Create_consultation (student_id st) (faculty_id fac) message course_code)
                    (consultation_of E)) (\<lambda>created.
            bind (get dashboard_window) (\<lambda>dw.
            case created of
              Some c \<Rightarrow>
                bind (case dw of
                        None \<Rightarrow> ret ()
                      | Some w \<Rightarrow>
                          bind (call E (Get_student_consultations (student_id st))
                                  (consultations_of E)) (\<lambda>consultation_history.
                          bind (call_unit E (Update_consultation_history w consultation_history))
                            (\<lambda>_.
                          call_unit E
                            (Show_success w (''Consultation request sent to '' @ faculty_name fac)))))
                  (\<lambda>_. ret (True, ''Consultation request sent''))
            | None \<Rightarrow>
                bind (show_error_if_exists E dw ''Failed to create consultation request'') (\<lambda>_.
                ret (False, ''Failed to create consultation request'')))))
           (\<lambda>e.
            bind (get dashboard_window) (\<lambda>dw.
            bind (show_error_if_exists E dw (''Error: '' @ str_of_exn e)) (\<lambda>_.
            ret (False, ''Error: '' @ str_of_exn e)))))"

text \<open>The call that creates the consultation.\<close>

definition create_call :: "student \<Rightarrow> faculty \<Rightarrow> string \<Rightarrow> string \<Rightarrow> event" where
  "create_call st fac message course_code =
     Create_consultation (student_id st) (faculty_id fac) message course_code"

text \<open>The calls that refresh the dashboard \<open>w\<close> after the consultation was created.\<close>

definition refresh_calls :: "env \<Rightarrow> event list \<Rightarrow> student \<Rightarrow> faculty \<Rightarrow> window \<Rightarrow> event list" where
  "refresh_calls E h st fac w =
     [Get_student_consultations (student_id st),
      Update_consultation_history w (consultations_of E h (Get_student_consultations (student_id st))),
      Show_success w (''Consultation request sent to '' @ faculty_name fac)]"

text \<open>The dashboard's \<^verbatim>\<open>show_error\<close> never raises.\<close>

definition show_error_returns :: "env \<Rightarrow> bool" where
  "show_error_returns E = (\<forall>h w msg. raises E h (Show_error w msg) = None)"

section \<open>The migration that adds the consultation response fields\<close>

text \<open>
  The state is the database as the script sees it: the columns of the \<^verbatim>\<open>consultations\<close>
  table, and the steps made on it so far. The steps of \<^verbatim>\<open>upgrade\<close> that can fail are those
  of SQLAlchemy and Alembic; whether one fails is read from an environment, as a function
  of the steps so far, of the columns at that moment and of the step. A failure may thus be
  transient: the same step on the same columns can fail once and succeed later.
  An \<^verbatim>\<open>op.add_column\<close> that does not fail appends the column.
\<close>

datatype coltype = DateTime | String | Other

record column =
  col_name :: string
  col_type :: coltype
  col_nullable :: bool

datatype mig_step = Get_db_engine | Inspect_engine | Get_columns | Add_column column

record database =
  cols :: "column list"
  history :: "mig_step list"

type_synonym mig_env = "mig_step list \<Rightarrow> column list \<Rightarrow> mig_step \<Rightarrow> exn option"

type_synonym 'a mig = "database \<Rightarrow> (exn + 'a) \<times> database"

definition mig_ret :: "'a \<Rightarrow> 'a mig" where
  "mig_ret x = (\<lambda>db. (Inr x, db))"

definition mig_bind :: "'a mig \<Rightarrow> ('a \<Rightarrow> 'b mig) \<Rightarrow> 'b mig" where
  "mig_bind c f = (\<lambda>db. case c db of
      (Inl e, db') \<Rightarrow> (Inl e, db')
    | (Inr a, db') \<Rightarrow> f a db')"

text \<open>What a step that does not fail does to the database.\<close>

fun perform :: "mig_step \<Rightarrow> database \<Rightarrow> database" where
  "perform (Add_column c) db = db\<lparr>cols := cols db @ [c], history := history db @ [Add_column c]\<rparr>"
| "perform st db = db\<lparr>history := history db @ [st]\<rparr>"

text \<open>A step: it joins the history, and the environment fails it or lets it happen.\<close>

definition attempt :: "mig_env \<Rightarrow> mig_step \<Rightarrow> unit mig" where
  "attempt M st = (\<lambda>db. case M (history db) (cols db) st of
      Some e \<Rightarrow> (Inl e, db\<lparr>history := history db @ [st]\<rparr>)
    | None \<Rightarrow> (Inr (), perform st db))"

definition add_column :: "mig_env \<Rightarrow> column \<Rightarrow> unit mig" where
  "add_column M c = attempt M (Add_column c)"

text \<open>\<^verbatim>\<open>[col['name'] for col in inspector.get_columns('consultations')]\<close>\<close>

definition get_column_names :: "mig_env \<Rightarrow> string list mig" where
  "get_column_names M =
     mig_bind (attempt M Get_columns) (\<lambda>_. (\<lambda>db. (Inr (map col_name (cols db)), db)))"

definition declined_at :: column where
  "declined_at = \<lparr>col_name = ''declined_at'', col_type = DateTime, col_nullable = True\<rparr>"

definition response_message :: column where
  "response_message = \<lparr>col_name = ''response_message'', col_type = String, col_nullable = True\<rparr>"

text \<open>The body of the \<^verbatim>\<open>try\<close>.\<close>

definition upgrade_steps :: "mig_env \<Rightarrow> bool mig" where
  "upgrade_steps M =
     mig_bind (attempt M Get_db_engine) (\<lambda>engine.
     mig_bind (attempt M Inspect_engine) (\<lambda>inspector.
     mig_bind (get_column_names M) (\<lambda>columns.
     mig_bind (if ''declined_at'' \<notin> set columns then add_column M declined_at
               else mig_ret ()) (\<lambda>_.
     mig_bind (if ''response_message'' \<notin> set columns then add_column M response_message
               else mig_ret ()) (\<lambda>_.
     mig_ret True)))))"

definition upgrade :: "mig_env \<Rightarrow> bool mig" where
  "upgrade M = (\<lambda>db. case upgrade_steps M db of
      (Inl e, db') \<Rightarrow> (Inr False, db')
    | (Inr b, db') \<Rightarrow> (Inr b, db'))"

text \<open>The steps a run from \<open>db\<close> makes when none fails.\<close>

definition planned :: "database \<Rightarrow> mig_step list" where
  "planned db =
     [Get_db_engine, Inspect_engine, Get_columns]
     @ map Add_column
         (filter (\<lambda>c. col_name c \<notin> set (map col_name (cols db)))
            [declined_at, response_message])"

text \<open>The steps \<open>sts\<close>, made in this order from \<open>db\<close>, all succeed.\<close>

fun steps_succeed :: "mig_env \<Rightarrow> database \<Rightarrow> mig_step list \<Rightarrow> bool" where
  "steps_succeed M db [] = True"
| "steps_succeed M db (st # sts) =
     (M (history db) (cols db) st = None \<and> steps_succeed M (perform st db) sts)"

text \<open>No step of a run of \<^verbatim>\<open>upgrade\<close> from \<open>db\<close> throws.\<close>

definition no_step_throws :: "mig_env \<Rightarrow> database \<Rightarrow> bool" where
  "no_step_throws M db = steps_succeed M db (planned db)"

text \<open>
  An environment in which no step fails; one in which \<^verbatim>\<open>op.add_column\<close> always fails; one
  in which the first attempt to add \<open>response_message\<close> fails and later ones succeed; and a
  database whose table has neither of the two columns.
\<close>

definition calm :: mig_env where
  "calm = (\<lambda>h cs st. None)"

definition locked :: mig_env where
  "locked = (\<lambda>h cs st. case st of
      Add_column c \<Rightarrow> Some (Exception ''database is locked'')
    | _ \<Rightarrow> None)"

definition flaky :: mig_env where
  "flaky = (\<lambda>h cs st.
     if st = Add_column response_message \<and> Add_column response_message \<notin> set h
     then Some (Exception ''database is locked'') else None)"

definition old_table :: "column list" where
  "old_table = [\<lparr>col_name = ''id'', col_type = Other, col_nullable = False\<rparr>,
                \<lparr>col_name = ''status'', col_type = String, col_nullable = False\<rparr>]"

definition old_database :: database where
  "old_database = \<lparr>cols = old_table, history = []\<rparr>"

section \<open>Notions used in the statements and proofs\<close>

text \<open>A computation that never ends the process.\<close>

definition no_exit :: "'a m \<Rightarrow> bool" where
  "no_exit c = (\<forall>s n. fst (c s) \<noteq> Exited n)"

text \<open>A computation that adds to the trace only events that satisfy \<open>P\<close>.\<close>

definition emits :: "(event \<Rightarrow> bool) \<Rightarrow> 'a m \<Rightarrow> bool" where
  "emits P c = (\<forall>s. \<exists>evs. trace (snd (c s)) = trace s @ evs \<and> list_all P evs)"

text \<open>A computation that changes nothing but the trace, to which it adds such events.\<close>

definition only_emits :: "(event \<Rightarrow> bool) \<Rightarrow> 'a m \<Rightarrow> bool" where
  "only_emits P c = (\<forall>s. \<exists>evs. snd (c s) = s\<lparr>trace := trace s @ evs\<rparr> \<and> list_all P evs)"

fun is_window_event :: "event \<Rightarrow> bool" where
  "is_window_event (IsVisible w) = True"
| "is_window_event (Hide w) = True"
| "is_window_event (Show_window w) = True"
| "is_window_event (ShowFullScreen w) = True"
| "is_window_event (Transition a w) = True"
| "is_window_event ev = False"

fun is_update_faculty_list :: "event \<Rightarrow> bool" where
  "is_update_faculty_list (Update_faculty_list w fl) = True"
| "is_update_faculty_list ev = False"

text \<open>A state in which a student looks at the dashboard, and an admin login window exists.\<close>

definition ana :: student where
  "ana = \<lparr>student_id = 7, student_name = ''Ana''\<rparr>"

definition at_dashboard :: app where
  "at_dashboard = \<lparr>login_window = Some LoginWindow, dashboard_window = Some DashboardWindow,
     admin_login_window = Some AdminLoginWindow, admin_dashboard_window = None,
     current_student = Some ana, fullscreen = False, trace = []\<rparr>"

text \<open>An environment in which every call returns, with empty answers.\<close>

definition quiet :: env where
  "quiet = \<lparr>raises = (\<lambda>h ev. None), bool_of = (\<lambda>h ev. False), string_of = (\<lambda>h ev. []),
            config_of = (\<lambda>h ev. PDict []), faculty_of = (\<lambda>h ev. []),
            consultations_of = (\<lambda>h ev. []), consultation_of = (\<lambda>h ev. None),
            admin_of = (\<lambda>h ev. None), found_of = (\<lambda>h ev. False)\<rparr>"

text \<open>The same, but the window \<open>w\<close> is visible.\<close>

definition seeing :: "window \<Rightarrow> env" where
  "seeing w = quiet\<lparr>bool_of := (\<lambda>h ev. ev = IsVisible w)\<rparr>"

text \<open>The same as \<open>quiet\<close>, but one faculty member is available.\<close>

definition dr_cruz :: faculty where
  "dr_cruz = \<lparr>faculty_id = 3, faculty_name = ''Dr. Cruz''\<rparr>"

definition listing :: env where
  "listing = quiet\<lparr>faculty_of := (\<lambda>h ev. [dr_cruz])\<rparr>"

text \<open>
  The same as \<open>quiet\<close>, but \<^verbatim>\<open>create_consultation\<close> returns a consultation; and the
  same again, but \<^verbatim>\<open>get_student_consultations\<close> raises.
\<close>

definition granting :: env where
  "granting = quiet\<lparr>consultation_of := (\<lambda>h ev. Some \<lparr>consultation_id = 1\<rparr>)\<rparr>"

definition refresh_fails :: env where
  "refresh_fails = granting\<lparr>raises := (\<lambda>h ev.
     if ev = Get_student_consultations 7 then Some (Exception ''down'') else None)\<rparr>"

text \<open>The same as \<open>quiet\<close>, but \<^verbatim>\<open>start_system()\<close> answers \<open>True\<close>.\<close>

definition started :: env where
  "started = quiet\<lparr>bool_of := (\<lambda>h ev. ev = start_system)\<rparr>"

text \<open>The same as \<open>quiet\<close>, but the call \<open>bad\<close> raises.\<close>

definition failing :: "event \<Rightarrow> env" where
  "failing bad = quiet\<lparr>raises := (\<lambda>h ev. if ev = bad then Some (Exception ''down'') else None)\<rparr>"

section \<open>Properties\<close>

lemmas prims = bind_def try_except_def ret_def raise_def sys_exit_def get_def modify_def
  lift_def call_def call_unit_def

subsection \<open>Computations that never end the process\<close>

lemma no_exit_ret: "no_exit (ret x)"
  by (simp add: no_exit_def ret_def)

lemma no_exit_raise: "no_exit (raise e)"
  by (simp add: no_exit_def raise_def)

lemma no_exit_get: "no_exit (get f)"
  by (simp add: no_exit_def get_def)

lemma no_exit_modify: "no_exit (modify f)"
  by (simp add: no_exit_def modify_def)

lemma no_exit_call: "no_exit (call E ev answer)"
  by (simp add: no_exit_def call_def split: option.splits)

lemma no_exit_call_unit: "no_exit (call_unit E ev)"
  by (simp add: call_unit_def no_exit_call)

lemma no_exit_lift: "no_exit (lift r)"
  by (cases r) (simp_all add: lift_def no_exit_ret no_exit_raise)

lemma no_exit_bind:
  assumes c: "no_exit c" and f: "\<And>a. no_exit (f a)"
  shows "no_exit (bind c f)"
  unfolding no_exit_def
proof (intro allI)
  fix s n
  obtain r s1 where cs: "c s = (r, s1)" by (cases "c s")
  show "fst (bind c f s) \<noteq> Exited n"
  proof (cases r)
    case (Returned a)
    with cs f [of a] show ?thesis by (simp add: bind_def no_exit_def)
  next
    case (Raised e)
    with cs show ?thesis by (simp add: bind_def)
  next
    case (Exited k)
    with cs c show ?thesis by (metis fst_conv no_exit_def)
  qed
qed

lemma no_exit_try:
  assumes c: "no_exit c" and h: "\<And>e. no_exit (h e)"
  shows "no_exit (try_except c h)"
  unfolding no_exit_def
proof (intro allI)
  fix s n
  obtain r s1 where cs: "c s = (r, s1)" by (cases "c s")
  show "fst (try_except c h s) \<noteq> Exited n"
  proof (cases r)
    case (Returned a)
    with cs show ?thesis by (simp add: try_except_def)
  next
    case (Raised e)
    with cs h [of e] show ?thesis by (simp add: try_except_def no_exit_def)
  next
    case (Exited k)
    with cs c show ?thesis by (metis fst_conv no_exit_def)
  qed
qed

lemma no_exit_if: "no_exit c \<Longrightarrow> no_exit d \<Longrightarrow> no_exit (if b then c else d)"
  by simp

lemma no_exit_case_option:
  "no_exit c \<Longrightarrow> (\<And>x. no_exit (f x)) \<Longrightarrow> no_exit (case v of None \<Rightarrow> c | Some x \<Rightarrow> f x)"
  by (cases v) simp_all

lemmas no_exit_intros = no_exit_ret no_exit_raise no_exit_get no_exit_modify no_exit_call
  no_exit_call_unit no_exit_lift no_exit_bind no_exit_try no_exit_if no_exit_case_option

lemma no_exit_active_window: "no_exit (active_window E ws)"
  by (induction ws) (auto simp add: exists_and_visible_def intro!: no_exit_intros)

lemma no_exit_hide_all: "no_exit (hide_all E ws)"
  by (induction ws) (auto simp add: hide_if_exists_def intro!: no_exit_intros)

lemma no_exit_show_login_window: "no_exit (show_login_window E)"
  unfolding show_login_window_def new_window_def switch_to_def bring_up_def
  by (intro no_exit_intros no_exit_active_window no_exit_hide_all)

text \<open>\<^verbatim>\<open>try: c; return True  except Exception: return False\<close> tells whether \<open>c\<close> returned.\<close>

lemma try_True_False:
  assumes "no_exit c"
  shows "fst (try_except (bind c (\<lambda>_. ret True)) (\<lambda>e. ret False) s)
           = Returned (fst (c s) = Returned ())"
proof -
  obtain r s1 where cs: "c s = (r, s1)" by (cases "c s")
  show ?thesis
  proof (cases r)
    case (Returned a)
    with cs show ?thesis by (simp add: try_except_def bind_def ret_def)
  next
    case (Raised e)
    with cs show ?thesis by (simp add: try_except_def bind_def ret_def)
  next
    case (Exited k)
    with cs assms show ?thesis by (metis fst_conv no_exit_def)
  qed
qed

subsection \<open>Switching windows\<close>

lemma bind_Returned:
  assumes "bind c f s = (Returned b, s')"
  obtains a s1 where "c s = (Returned a, s1)" and "f a s1 = (Returned b, s')"
  using assms by (auto simp add: bind_def split: prod.splits outcome.splits)

lemma get_Returned: "get f s = (Returned a, s1) \<Longrightarrow> a = f s \<and> s1 = s"
  by (auto simp add: get_def)

lemma modify_Returned: "modify f s = (Returned a, s1) \<Longrightarrow> s1 = f s"
  by (auto simp add: modify_def)

lemma ret_Returned: "ret x s = (Returned a, s1) \<Longrightarrow> a = x \<and> s1 = s"
  by (auto simp add: ret_def)

lemma call_Returned:
  "call E ev answer s = (Returned a, s1)
     \<Longrightarrow> raises E (trace s) ev = None \<and> a = answer (trace s) ev \<and> s1 = s\<lparr>trace := trace s @ [ev]\<rparr>"
  by (auto simp add: call_def split: option.splits)

lemma call_unit_Returned:
  "call_unit E ev s = (Returned a, s1)
     \<Longrightarrow> raises E (trace s) ev = None \<and> s1 = s\<lparr>trace := trace s @ [ev]\<rparr>"
  by (auto simp add: call_unit_def dest: call_Returned)

lemma only_emits_ret: "only_emits P (ret x)"
  unfolding only_emits_def ret_def by (intro allI exI [of _ "[]"]) simp

lemma only_emits_raise: "only_emits P (raise e)"
  unfolding only_emits_def raise_def by (intro allI exI [of _ "[]"]) simp

lemma only_emits_get: "only_emits P (get f)"
  unfolding only_emits_def get_def by (intro allI exI [of _ "[]"]) simp

lemma only_emits_call: "P ev \<Longrightarrow> only_emits P (call E ev answer)"
  unfolding only_emits_def call_def by (intro allI exI [of _ "[ev]"]) simp

lemma only_emits_call_unit: "P ev \<Longrightarrow> only_emits P (call_unit E ev)"
  by (simp add: call_unit_def only_emits_call)

lemma only_emits_bind:
  assumes c: "only_emits P c" and f: "\<And>a. only_emits P (f a)"
  shows "only_emits P (bind c f)"
  unfolding only_emits_def
proof
  fix s
  obtain r s1 where cs: "c s = (r, s1)" by (cases "c s")
  from c cs obtain e1 where s1: "s1 = s\<lparr>trace := trace s @ e1\<rparr>" and p1: "list_all P e1"
    unfolding only_emits_def by (metis snd_conv)
  show "\<exists>evs. snd (bind c f s) = s\<lparr>trace := trace s @ evs\<rparr> \<and> list_all P evs"
  proof (cases r)
    case (Returned a)
    from f [of a] obtain e2 where s2: "snd (f a s1) = s1\<lparr>trace := trace s1 @ e2\<rparr>"
      and p2: "list_all P e2"
      unfolding only_emits_def by blast
    from cs Returned have "snd (bind c f s) = snd (f a s1)" by (simp add: bind_def)
    with s2 s1 have "snd (bind c f s) = s\<lparr>trace := trace s @ (e1 @ e2)\<rparr>" by simp
    with p1 p2 show ?thesis by (intro exI [of _ "e1 @ e2"]) simp
  next
    case (Raised e)
    with cs s1 p1 show ?thesis by (intro exI [of _ e1]) (simp add: bind_def)
  next
    case (Exited n)
    with cs s1 p1 show ?thesis by (intro exI [of _ e1]) (simp add: bind_def)
  qed
qed

lemma only_emits_if: "only_emits P c \<Longrightarrow> only_emits P d \<Longrightarrow> only_emits P (if b then c else d)"
  by simp

lemma only_emits_case_option:
  "only_emits P c \<Longrightarrow> (\<And>x. only_emits P (f x)) \<Longrightarrow> only_emits P (case v of None \<Rightarrow> c | Some x \<Rightarrow> f x)"
  by (cases v) simp_all

lemmas only_emits_intros = only_emits_ret only_emits_raise only_emits_get only_emits_call
  only_emits_call_unit only_emits_bind only_emits_if only_emits_case_option

lemma only_emits_active_window: "only_emits is_window_event (active_window E ws)"
  by (induction ws) (auto simp add: exists_and_visible_def intro!: only_emits_intros)

lemma only_emits_hide_all: "only_emits is_window_event (hide_all E ws)"
  by (induction ws) (auto simp add: hide_if_exists_def intro!: only_emits_intros)

lemma only_emits_bring_up: "only_emits is_window_event (bring_up E a w)"
  unfolding bring_up_def by (intro only_emits_intros) simp_all

lemma only_emits_switch_to: "only_emits is_window_event (switch_to E ws w)"
  unfolding switch_to_def
  by (intro only_emits_intros only_emits_active_window only_emits_hide_all only_emits_bring_up)

lemma hide_all_Returned:
  "hide_all E ws s = (Returned (), s') \<Longrightarrow> s' = s\<lparr>trace := trace s @ map Hide (existing ws)\<rparr>"
proof (induction ws arbitrary: s)
  case Nil
  then show ?case by (simp add: ret_def)
next
  case (Cons wo ws)
  from Cons.prems obtain u s1 where h: "hide_if_exists E wo s = (Returned u, s1)"
    and r: "hide_all E ws s1 = (Returned (), s')"
    by (auto elim: bind_Returned)
  from Cons.IH [OF r] have s': "s' = s1\<lparr>trace := trace s1 @ map Hide (existing ws)\<rparr>" .
  show ?case
  proof (cases wo)
    case None
    with h have "s1 = s" by (simp add: hide_if_exists_def ret_def)
    with s' None show ?thesis by simp
  next
    case (Some w)
    with h have "s1 = s\<lparr>trace := trace s @ [Hide w]\<rparr>"
      by (auto simp add: hide_if_exists_def call_unit_def call_def split: option.splits)
    with s' Some show ?thesis by simp
  qed
qed

lemma bring_up_Returned:
  assumes "bring_up E a w s = (Returned (), s')"
  shows "\<exists>evs. s' = s\<lparr>trace := trace s @ evs\<rparr> \<and> list_all is_window_event evs
           \<and> list_ex (brings_up w) evs"
proof (cases a)
  case None
  show ?thesis
  proof (cases "fullscreen s")
    case True
    with None assms have "s' = s\<lparr>trace := trace s @ [Show_window w, ShowFullScreen w]\<rparr>"
      by (auto simp add: bring_up_def prims split: option.splits)
    then show ?thesis by (intro exI [of _ "[Show_window w, ShowFullScreen w]"]) simp
  next
    case False
    with None assms have "s' = s\<lparr>trace := trace s @ [Show_window w]\<rparr>"
      by (auto simp add: bring_up_def prims split: option.splits)
    then show ?thesis by (intro exI [of _ "[Show_window w]"]) simp
  qed
next
  case (Some x)
  with assms have "s' = s\<lparr>trace := trace s @ [Transition x w]\<rparr>"
    by (auto simp add: bring_up_def prims split: option.splits)
  then show ?thesis by (intro exI [of _ "[Transition x w]"]) simp
qed

lemma set_existing: "set (existing ws) = {x. Some x \<in> set ws}"
  by (induction ws rule: existing.induct) auto

lemma switch_to_Returned:
  assumes "switch_to E ws w s = (Returned (), s')"
  shows "\<exists>evs. s' = s\<lparr>trace := trace s @ evs\<rparr> \<and> list_all is_window_event evs
           \<and> (\<forall>x. Some x \<in> set ws \<longrightarrow> Hide x \<in> set evs) \<and> list_ex (brings_up w) evs"
proof -
  from assms obtain a s1 s2 where a: "active_window E ws s = (Returned a, s1)"
    and h: "hide_all E ws s1 = (Returned (), s2)"
    and b: "bring_up E a w s2 = (Returned (), s')"
    unfolding switch_to_def by (auto elim!: bind_Returned)
  from only_emits_active_window [of E ws] a obtain e1
    where s1: "s1 = s\<lparr>trace := trace s @ e1\<rparr>" and p1: "list_all is_window_event e1"
    unfolding only_emits_def by (metis snd_conv)
  from hide_all_Returned [OF h] have s2: "s2 = s1\<lparr>trace := trace s1 @ map Hide (existing ws)\<rparr>" .
  from bring_up_Returned [OF b] obtain e3
    where s3: "s' = s2\<lparr>trace := trace s2 @ e3\<rparr>" and w3: "list_all is_window_event e3"
      and p3: "list_ex (brings_up w) e3" by blast
  let ?evs = "e1 @ map Hide (existing ws) @ e3"
  from s1 s2 s3 have "s' = s\<lparr>trace := trace s @ ?evs\<rparr>" by simp
  moreover from p1 w3 have "list_all is_window_event ?evs" by (auto simp add: list_all_iff)
  moreover have "\<forall>x. Some x \<in> set ws \<longrightarrow> Hide x \<in> set ?evs" by (simp add: set_existing)
  moreover from p3 have "list_ex (brings_up w) ?evs" by (auto simp add: list_ex_iff)
  ultimately show ?thesis by blast
qed

subsection \<open>What a computation adds to the trace\<close>

lemma emits_ret: "emits P (ret x)"
  unfolding emits_def ret_def by (intro allI exI [of _ "[]"]) simp

lemma emits_raise: "emits P (raise e)"
  unfolding emits_def raise_def by (intro allI exI [of _ "[]"]) simp

lemma emits_sys_exit: "emits P (sys_exit n)"
  unfolding emits_def sys_exit_def by (intro allI exI [of _ "[]"]) simp

lemma emits_get: "emits P (get f)"
  unfolding emits_def get_def by (intro allI exI [of _ "[]"]) simp

lemma emits_modify: "(\<And>s. trace (f s) = trace s) \<Longrightarrow> emits P (modify f)"
  unfolding emits_def modify_def by (intro allI exI [of _ "[]"]) simp

lemma emits_lift: "emits P (lift r)"
  by (cases r) (simp_all add: lift_def emits_ret emits_raise)

lemma emits_call: "P ev \<Longrightarrow> emits P (call E ev answer)"
  unfolding emits_def call_def by (intro allI exI [of _ "[ev]"]) simp

lemma emits_call_unit: "P ev \<Longrightarrow> emits P (call_unit E ev)"
  by (simp add: call_unit_def emits_call)

lemma emits_bind:
  assumes c: "emits P c" and f: "\<And>a. emits P (f a)"
  shows "emits P (bind c f)"
  unfolding emits_def
proof
  fix s
  obtain r s1 where cs: "c s = (r, s1)" by (cases "c s")
  from c cs obtain e1 where s1: "trace s1 = trace s @ e1" and p1: "list_all P e1"
    unfolding emits_def by (metis snd_conv)
  show "\<exists>evs. trace (snd (bind c f s)) = trace s @ evs \<and> list_all P evs"
  proof (cases r)
    case (Returned a)
    from f [of a] obtain e2 where s2: "trace (snd (f a s1)) = trace s1 @ e2"
      and p2: "list_all P e2"
      unfolding emits_def by blast
    from cs Returned have "snd (bind c f s) = snd (f a s1)" by (simp add: bind_def)
    with s2 s1 have "trace (snd (bind c f s)) = trace s @ (e1 @ e2)" by simp
    with p1 p2 show ?thesis by (intro exI [of _ "e1 @ e2"]) simp
  next
    case (Raised e)
    with cs s1 p1 show ?thesis by (intro exI [of _ e1]) (simp add: bind_def)
  next
    case (Exited n)
    with cs s1 p1 show ?thesis by (intro exI [of _ e1]) (simp add: bind_def)
  qed
qed

lemma emits_try:
  assumes c: "emits P c" and h: "\<And>e. emits P (h e)"
  shows "emits P (try_except c h)"
  unfolding emits_def
proof
  fix s
  obtain r s1 where cs: "c s = (r, s1)" by (cases "c s")
  from c cs obtain e1 where s1: "trace s1 = trace s @ e1" and p1: "list_all P e1"
    unfolding emits_def by (metis snd_conv)
  show "\<exists>evs. trace (snd (try_except c h s)) = trace s @ evs \<and> list_all P evs"
  proof (cases r)
    case (Raised e)
    from h [of e] obtain e2 where s2: "trace (snd (h e s1)) = trace s1 @ e2"
      and p2: "list_all P e2"
      unfolding emits_def by blast
    from cs Raised have "snd (try_except c h s) = snd (h e s1)" by (simp add: try_except_def)
    with s2 s1 have "trace (snd (try_except c h s)) = trace s @ (e1 @ e2)" by simp
    with p1 p2 show ?thesis by (intro exI [of _ "e1 @ e2"]) simp
  next
    case (Returned a)
    with cs s1 p1 show ?thesis by (intro exI [of _ e1]) (simp add: try_except_def)
  next
    case (Exited n)
    with cs s1 p1 show ?thesis by (intro exI [of _ e1]) (simp add: try_except_def)
  qed
qed

lemma emits_if: "emits P c \<Longrightarrow> emits P d \<Longrightarrow> emits P (if b then c else d)"
  by simp

lemma emits_case_option:
  "emits P c \<Longrightarrow> (\<And>x. emits P (f x)) \<Longrightarrow> emits P (case v of None \<Rightarrow> c | Some x \<Rightarrow> f x)"
  by (cases v) simp_all

lemma emits_seq_Nil: "emits P (seq [])"
  by (simp add: emits_ret)

lemma emits_seq_Cons: "emits P c \<Longrightarrow> emits P (seq cs) \<Longrightarrow> emits P (seq (c # cs))"
  by (simp add: emits_bind)

lemmas emits_intros = emits_ret emits_raise emits_sys_exit emits_get emits_modify emits_lift
  emits_call emits_call_unit emits_bind emits_try emits_if emits_case_option
  emits_seq_Nil emits_seq_Cons

lemma emits_init_prefix: "emits (\<lambda>ev. \<not> is_new_controller ev) (init_prefix E)"
  unfolding init_prefix_def apply_theme_def get_theme_preference_def read_theme_def
    register_system_services_def register_database_def register_mqtt_def register_ui_def
  by (intro emits_intros) simp_all

lemma emits_init_rest: "emits (\<lambda>ev. True) (init_rest E fs)"
  unfolding init_rest_def verify_admin_account_startup_def emergency_admin_repair_def
    create_default_admin_def ensure_dr_john_smith_available_def
  by (intro emits_intros) simp_all

subsection \<open>Registration with the system coordinator\<close>



subsection \<open>Initialisation\<close>

lemma new_controllers_all:
  assumes "no_raise E (trace s) controllers"
  shows "new_controllers E s = (Returned (), s\<lparr>trace := trace s @ controllers\<rparr>)"
  using assms by (simp add: new_controllers_def controllers_def prims)

lemma raises_quiet: "raises quiet h ev = None" by (simp add: quiet_def)

lemma raises_started: "raises started h ev = None" by (simp add: started_def quiet_def)

lemma bool_quiet: "bool_of quiet h ev = False" by (simp add: quiet_def)

lemma bool_started: "bool_of started h ev = (ev = start_system)" by (simp add: started_def quiet_def)

lemma no_raise_quiet: "no_raise quiet h evs"
  by (induction evs arbitrary: h) (simp_all add: raises_quiet)

lemma no_raise_started: "no_raise started h evs"
  by (induction evs arbitrary: h) (simp_all add: raises_started)

lemma init_prefix_quiet: "fst (init_prefix quiet fresh) = Returned ()"
  by (simp add: init_prefix_def apply_theme_def register_system_services_def prims raises_quiet)

lemma init_prefix_started: "fst (init_prefix started fresh) = Returned ()"
  by (simp add: init_prefix_def apply_theme_def register_system_services_def prims raises_started)

text \<open>
  C2. \<^verbatim>\<open>__init__\<close> branches on what \<^verbatim>\<open>start_system()\<close> returns. When it returns \<open>False\<close>
  the process exits with status 1 and no controller has been constructed. A controller is
  constructed only in a run in which \<^verbatim>\<open>start_system()\<close> was reached and returned \<open>True\<close>;
  in such a run the five constructors are called, in the order of the source, right after
  \<^verbatim>\<open>start_system()\<close> (as long as none of them raises).
\<close>

theorem init_branches_on_start_system:
  "(fst (init_prefix E s) = Returned ()
      \<and> raises E (trace (snd (init_prefix E s))) start_system = None
      \<and> \<not> bool_of E (trace (snd (init_prefix E s))) start_system
     \<longrightarrow> fst (init E fs s) = Exited 1
         \<and> \<not> list_ex is_new_controller (emitted (init E fs) s))
   \<and> (list_ex is_new_controller (emitted (init E fs) s)
     \<longrightarrow> fst (init_prefix E s) = Returned ()
         \<and> raises E (trace (snd (init_prefix E s))) start_system = None
         \<and> bool_of E (trace (snd (init_prefix E s))) start_system)
   \<and> (fst (init_prefix E s) = Returned ()
      \<and> raises E (trace (snd (init_prefix E s))) start_system = None
      \<and> bool_of E (trace (snd (init_prefix E s))) start_system
      \<and> no_raise E (trace (snd (init_prefix E s)) @ [start_system]) controllers
     \<longrightarrow> (\<exists>post. emitted (init E fs) s
            = emitted (init_prefix E) s @ [start_system] @ controllers @ post))
   \<and> \<not> list_ex is_new_controller (emitted (init_prefix E) s)"
proof -
  obtain r s1 where p: "init_prefix E s = (r, s1)" by (cases "init_prefix E s")
  from emits_init_prefix [of E] p obtain e1
    where t1: "trace s1 = trace s @ e1" and n1: "list_all (\<lambda>ev. \<not> is_new_controller ev) e1"
    unfolding emits_def by (metis snd_conv)
  from n1 have n1': "\<not> list_ex is_new_controller e1"
    by (simp add: list_all_iff list_ex_iff)
  from p t1 have ep: "emitted (init_prefix E) s = e1" by (simp add: emitted_def)
  let ?s2 = "s1\<lparr>trace := trace s1 @ [start_system]\<rparr>"
  have ns: "\<not> is_new_controller start_system" by (simp add: start_system_def)
  show ?thesis
  proof (cases r)
    case (Raised e)
    with p have "init E fs s = (Raised e, s1)" by (simp add: init_def bind_def)
    with t1 have "emitted (init E fs) s = e1" by (simp add: emitted_def)
    with p Raised n1' ep show ?thesis by simp
  next
    case (Exited n)
    with p have "init E fs s = (Exited n, s1)" by (simp add: init_def bind_def)
    with t1 have "emitted (init E fs) s = e1" by (simp add: emitted_def)
    with p Exited n1' ep show ?thesis by simp
  next
    case (Returned u)
    show ?thesis
    proof (cases "raises E (trace s1) start_system")
      case (Some e)
      with p Returned have "init E fs s = (Raised e, ?s2)"
        by (simp add: init_def bind_def call_def)
      with t1 have "emitted (init E fs) s = e1 @ [start_system]" by (simp add: emitted_def)
      with p Returned Some n1' ns ep show ?thesis by (simp add: list_ex_iff)
    next
      case None
      show ?thesis
      proof (cases "bool_of E (trace s1) start_system")
        case False
        with p Returned None have i: "init E fs s = (Exited 1, ?s2)"
          by (simp add: init_def bind_def call_def sys_exit_def)
        with t1 have "emitted (init E fs) s = e1 @ [start_system]" by (simp add: emitted_def)
        with i p Returned None False n1' ns ep show ?thesis by (simp add: list_ex_iff)
      next
        case True
        with p Returned None
        have i: "init E fs s = bind (new_controllers E) (\<lambda>_. init_rest E fs) ?s2"
          by (simp add: init_def bind_def call_def ret_def)
        have "no_raise E (trace s1 @ [start_system]) controllers
               \<longrightarrow> (\<exists>post. emitted (init E fs) s = e1 @ [start_system] @ controllers @ post)"
        proof
          assume nr: "no_raise E (trace s1 @ [start_system]) controllers"
          let ?s3 = "?s2\<lparr>trace := trace ?s2 @ controllers\<rparr>"
          from nr new_controllers_all [of E ?s2]
          have "new_controllers E ?s2 = (Returned (), ?s3)" by simp
          with i have i': "init E fs s = init_rest E fs ?s3" by (simp add: bind_def)
          from emits_init_rest [of E fs] obtain e4
            where "trace (snd (init_rest E fs ?s3)) = trace ?s3 @ e4"
            unfolding emits_def by blast
          with i' t1 have "emitted (init E fs) s = e1 @ [start_system] @ controllers @ e4"
            by (simp add: emitted_def)
          then show "\<exists>post. emitted (init E fs) s = e1 @ [start_system] @ controllers @ post"
            by blast
        qed
        with p Returned None True n1' ep show ?thesis by simp
      qed
    qed
  qed
qed

theorem init_branches_on_start_system_witness:
  "fst (init_prefix quiet fresh) = Returned ()
   \<and> raises quiet (trace (snd (init_prefix quiet fresh))) start_system = None
   \<and> \<not> bool_of quiet (trace (snd (init_prefix quiet fresh))) start_system
   \<and> fst (init quiet False fresh) = Exited 1
   \<and> \<not> list_ex is_new_controller (emitted (init quiet False) fresh)
   \<and> fst (init_prefix started fresh) = Returned ()
   \<and> bool_of started (trace (snd (init_prefix started fresh))) start_system
   \<and> list_ex is_new_controller (emitted (init started False) fresh)"
proof -
  have a: "fst (init quiet False fresh) = Exited 1
     \<and> \<not> list_ex is_new_controller (emitted (init quiet False) fresh)"
    using init_branches_on_start_system [of quiet fresh False] init_prefix_quiet raises_quiet bool_quiet by blast
  have "\<exists>post. emitted (init started False) fresh
            = emitted (init_prefix started) fresh @ [start_system] @ controllers @ post"
    using init_branches_on_start_system [of started fresh False] init_prefix_started raises_started bool_started no_raise_started by blast
  then have b: "list_ex is_new_controller (emitted (init started False) fresh)"
    by (auto simp add: controllers_def)
  from a b init_prefix_quiet init_prefix_started raises_quiet bool_quiet bool_started show ?thesis by simp
qed

subsection \<open>The login window\<close>

text \<open>
  C8. When \<^verbatim>\<open>show_login_window\<close> returns, \<^verbatim>\<open>current_student\<close> is \<^verbatim>\<open>None\<close> and \<^verbatim>\<open>hide()\<close>
  has been called, during this call, on each of the dashboard, admin login and admin
  dashboard windows that exists; this holds with and without a transition, since the
  statement is about every returning run. The three window attributes are left as they are.
\<close>

theorem show_login_window_hides_and_resets:
  assumes "show_login_window E s = (Returned (), s')"
  shows "current_student s' = None
     \<and> dashboard_window s' = dashboard_window s
     \<and> admin_login_window s' = admin_login_window s
     \<and> admin_dashboard_window s' = admin_dashboard_window s
     \<and> (\<forall>w. dashboard_window s = Some w
            \<longrightarrow> Hide w \<in> set (emitted (show_login_window E) s))
     \<and> (\<forall>w. admin_login_window s = Some w
            \<longrightarrow> Hide w \<in> set (emitted (show_login_window E) s))
     \<and> (\<forall>w. admin_dashboard_window s = Some w
            \<longrightarrow> Hide w \<in> set (emitted (show_login_window E) s))"
proof -
  let ?others = "[dashboard_window s, admin_login_window s, admin_dashboard_window s]"
  let ?ensure = "case login_window s of
             None \<Rightarrow> bind (new_window E LoginWindow) (\<lambda>w.
                     bind (modify (\<lambda>s. s\<lparr>login_window := Some w\<rparr>)) (\<lambda>_. ret w))
           | Some w \<Rightarrow> ret w"
  from assms obtain lw sa sb u dw alw adw u2 sc
    where en: "?ensure s = (Returned lw, sa)"
      and rc: "call_unit E (Register_callback Ref_login_window_handle_rfid_scan) sa = (Returned u, sb)"
      and sw: "switch_to E [dashboard_window sb, admin_login_window sb, admin_dashboard_window sb] lw sb = (Returned u2, sc)"
      and s': "s' = sc\<lparr>current_student := None\<rparr>"
    unfolding show_login_window_def
    by (auto elim!: bind_Returned dest!: get_Returned modify_Returned)
  from en obtain p1 where sa: "trace sa = trace s @ p1" "dashboard_window sa = dashboard_window s"
      "admin_login_window sa = admin_login_window s"
      "admin_dashboard_window sa = admin_dashboard_window s"
  proof (cases "login_window s")
    case None
    with en have "sa = s\<lparr>trace := trace s @ [New_window LoginWindow], login_window := Some LoginWindow\<rparr>"
      by (auto simp add: new_window_def elim!: bind_Returned
          dest!: call_unit_Returned modify_Returned ret_Returned)
    then show ?thesis by (intro that [of "[New_window LoginWindow]"]) simp_all
  next
    case (Some w)
    with en have "sa = s" by (auto dest: ret_Returned)
    then show ?thesis by (intro that [of "[]"]) simp_all
  qed
  from call_unit_Returned [OF rc]
  have sb: "sb = sa\<lparr>trace := trace sa @ [Register_callback Ref_login_window_handle_rfid_scan]\<rparr>"
    by simp
  with sa sw have sw': "switch_to E ?others lw sb = (Returned (), sc)" by simp
  from switch_to_Returned [OF sw'] obtain evs
    where sc: "sc = sb\<lparr>trace := trace sb @ evs\<rparr>"
      and hid: "\<forall>x. Some x \<in> set ?others \<longrightarrow> Hide x \<in> set evs"
    by blast
  from assms s' sc sb sa
  have em: "emitted (show_login_window E) s
      = p1 @ [Register_callback Ref_login_window_handle_rfid_scan] @ evs"
    by (simp add: emitted_def)
  from s' sc sb sa have "current_student s' = None" "dashboard_window s' = dashboard_window s"
    "admin_login_window s' = admin_login_window s"
    "admin_dashboard_window s' = admin_dashboard_window s"
    by simp_all
  with hid em show ?thesis by simp
qed

theorem show_login_window_hides_and_resets_witness:
  "show_login_window (seeing DashboardWindow) at_dashboard
     = (Returned (),
        at_dashboard\<lparr>current_student := None,
          trace := [Register_callback Ref_login_window_handle_rfid_scan,
                    IsVisible DashboardWindow, Hide DashboardWindow, Hide AdminLoginWindow,
                    Transition DashboardWindow LoginWindow]\<rparr>)
   \<and> Hide DashboardWindow \<in> set (emitted (show_login_window (seeing DashboardWindow)) at_dashboard)
   \<and> Hide AdminLoginWindow \<in> set (emitted (show_login_window (seeing DashboardWindow)) at_dashboard)
   \<and> show_login_window quiet at_dashboard
     = (Returned (),
        at_dashboard\<lparr>current_student := None,
          trace := [Register_callback Ref_login_window_handle_rfid_scan,
                    IsVisible DashboardWindow, IsVisible AdminLoginWindow,
                    Hide DashboardWindow, Hide AdminLoginWindow,
                    Show_window LoginWindow]\<rparr>)
   \<and> Hide DashboardWindow \<in> set (emitted (show_login_window quiet) at_dashboard)"
proof -
  have t: "show_login_window (seeing DashboardWindow) at_dashboard
     = (Returned (),
        at_dashboard\<lparr>current_student := None,
          trace := [Register_callback Ref_login_window_handle_rfid_scan,
                    IsVisible DashboardWindow, Hide DashboardWindow, Hide AdminLoginWindow,
                    Transition DashboardWindow LoginWindow]\<rparr>)"
    by (simp add: show_login_window_def switch_to_def exists_and_visible_def hide_if_exists_def
        bring_up_def seeing_def quiet_def at_dashboard_def prims)
  have p: "show_login_window quiet at_dashboard
     = (Returned (),
        at_dashboard\<lparr>current_student := None,
          trace := [Register_callback Ref_login_window_handle_rfid_scan,
                    IsVisible DashboardWindow, IsVisible AdminLoginWindow,
                    Hide DashboardWindow, Hide AdminLoginWindow,
                    Show_window LoginWindow]\<rparr>)"
    by (simp add: show_login_window_def switch_to_def exists_and_visible_def hide_if_exists_def
        bring_up_def quiet_def at_dashboard_def prims)
  from show_login_window_hides_and_resets [OF t] show_login_window_hides_and_resets [OF p] t p
  show ?thesis by (simp add: at_dashboard_def)
qed

subsection \<open>The dashboard and its refresh timer\<close>

lemma window_event_not_update:
  "is_window_event ev \<Longrightarrow> \<not> is_update_faculty_list ev \<and> ev \<noteq> refresh_timer"
  by (cases ev) (simp_all add: refresh_timer_def)

lemma window_events_not_update:
  assumes "list_all is_window_event evs"
  shows "\<not> list_ex is_update_faculty_list evs \<and> refresh_timer \<notin> set evs"
  using assms window_event_not_update by (auto simp add: list_all_iff list_ex_iff)

lemma ensure_dashboard_Returned:
  assumes "(case dashboard_window s of
             None \<Rightarrow> bind (new_window E DashboardWindow) (\<lambda>w.
                     bind (modify (\<lambda>s. s\<lparr>dashboard_window := Some w\<rparr>)) (\<lambda>_. ret w))
           | Some w \<Rightarrow> ret w) s = (Returned dw, sa)"
  shows "\<exists>p. sa = s\<lparr>dashboard_window := Some dw, trace := trace s @ p\<rparr>
           \<and> (p = [] \<or> p = [New_window DashboardWindow])"
proof (cases "dashboard_window s")
  case None
  with assms have "sa = s\<lparr>trace := trace s @ [New_window DashboardWindow],
      dashboard_window := Some DashboardWindow\<rparr> \<and> dw = DashboardWindow"
    by (auto simp add: new_window_def elim!: bind_Returned
        dest!: call_unit_Returned modify_Returned ret_Returned)
  then show ?thesis by (intro exI [of _ "[New_window DashboardWindow]"]) simp
next
  case (Some w)
  with assms have "sa = s \<and> dw = w" by (auto dest: ret_Returned)
  with Some show ?thesis by (intro exI [of _ "[]"]) simp
qed

lemma show_dashboard_window_Returned:
  assumes "show_dashboard_window E (Some st) s = (Returned (), s')"
  shows "\<exists>dw pre post.
          dashboard_window s' = Some dw \<and> current_student s' = Some st
        \<and> emitted (show_dashboard_window E (Some st)) s
            = pre @ [Get_available_faculty,
                     Update_faculty_list dw (faculty_of E (trace s @ pre) Get_available_faculty)]
                  @ post @ [refresh_timer]
        \<and> \<not> list_ex is_update_faculty_list (pre @ post)
        \<and> refresh_timer \<notin> set (pre @ post)
        \<and> list_ex (brings_up dw) post"
proof -
  let ?s0 = "s\<lparr>current_student := Some st\<rparr>"
  from assms obtain dw sa u1 s1 fl s2 u3 s3 h s4 u5 s5 u6 s6
    where en: "(case dashboard_window ?s0 of
             None \<Rightarrow> bind (new_window E DashboardWindow) (\<lambda>w.
                     bind (modify (\<lambda>s. s\<lparr>dashboard_window := Some w\<rparr>)) (\<lambda>_. ret w))
           | Some w \<Rightarrow> ret w) ?s0 = (Returned dw, sa)"
      and c1: "call_unit E (Set_student dw st) sa = (Returned u1, s1)"
      and c2: "call E Get_available_faculty (faculty_of E) s1 = (Returned fl, s2)"
      and c3: "call_unit E (Update_faculty_list dw fl) s2 = (Returned u3, s3)"
      and c4: "call E (Get_student_consultations (student_id st)) (consultations_of E) s3
                 = (Returned h, s4)"
      and c5: "call_unit E (Update_consultation_history dw h) s4 = (Returned u5, s5)"
      and sw: "switch_to E [login_window s5, admin_login_window s5, admin_dashboard_window s5]
                 dw s5 = (Returned u6, s6)"
      and c6: "call_unit E refresh_timer s6 = (Returned (), s')"
    unfolding show_dashboard_window_def
    by (auto elim!: bind_Returned dest!: get_Returned modify_Returned)
  from ensure_dashboard_Returned [OF en] obtain p
    where sa: "sa = ?s0\<lparr>dashboard_window := Some dw, trace := trace ?s0 @ p\<rparr>"
      and p: "p = [] \<or> p = [New_window DashboardWindow]"
    by blast
  from call_unit_Returned [OF c1] have s1: "s1 = sa\<lparr>trace := trace sa @ [Set_student dw st]\<rparr>"
    by simp
  from call_Returned [OF c2]
  have fl: "fl = faculty_of E (trace s1) Get_available_faculty"
    and s2: "s2 = s1\<lparr>trace := trace s1 @ [Get_available_faculty]\<rparr>"
    by simp_all
  from call_unit_Returned [OF c3]
  have s3: "s3 = s2\<lparr>trace := trace s2 @ [Update_faculty_list dw fl]\<rparr>" by simp
  from call_Returned [OF c4]
  have s4: "s4 = s3\<lparr>trace := trace s3 @ [Get_student_consultations (student_id st)]\<rparr>"
    by simp
  from call_unit_Returned [OF c5]
  have s5: "s5 = s4\<lparr>trace := trace s4 @ [Update_consultation_history dw h]\<rparr>" by simp
  from sw have "switch_to E [login_window s5, admin_login_window s5, admin_dashboard_window s5]
                 dw s5 = (Returned (), s6)" by simp
  from switch_to_Returned [OF this] obtain evs
    where s6: "s6 = s5\<lparr>trace := trace s5 @ evs\<rparr>" and we: "list_all is_window_event evs"
      and bu: "list_ex (brings_up dw) evs"
    by blast
  from call_unit_Returned [OF c6] have s': "s' = s6\<lparr>trace := trace s6 @ [refresh_timer]\<rparr>"
    by simp
  let ?pre = "p @ [Set_student dw st]"
  let ?post = "[Get_student_consultations (student_id st), Update_consultation_history dw h] @ evs"
  from sa s1 have t1: "trace s1 = trace s @ ?pre" by simp
  from assms s' s6 s5 s4 s3 s2 s1 sa fl t1
  have em: "emitted (show_dashboard_window E (Some st)) s
      = ?pre @ [Get_available_faculty,
                Update_faculty_list dw (faculty_of E (trace s @ ?pre) Get_available_faculty)]
          @ ?post @ [refresh_timer]"
    by (simp add: emitted_def)
  from s' s6 s5 s4 s3 s2 s1 sa
  have dwin: "dashboard_window s' = Some dw" "current_student s' = Some st" by simp_all
  from bu have bu': "list_ex (brings_up dw) ?post" by simp
  from p window_events_not_update [OF we]
  have no: "\<not> list_ex is_update_faculty_list (?pre @ ?post)" "refresh_timer \<notin> set (?pre @ ?post)"
    by (auto simp add: refresh_timer_def)
  from dwin em no bu' show ?thesis by blast
qed


lemma try_swallow:
  assumes "no_exit c"
  shows "fst (try_except c (\<lambda>e. ret ()) s) = Returned ()"
proof -
  obtain r s1 where cs: "c s = (r, s1)" by (cases "c s")
  show ?thesis
  proof (cases r)
    case (Returned a) with cs show ?thesis by (simp add: try_except_def)
  next
    case (Raised e) with cs show ?thesis by (simp add: try_except_def ret_def)
  next
    case (Exited k) with cs assms show ?thesis by (metis fst_conv no_exit_def)
  qed
qed

lemma no_exit_handle_faculty_body:
  "no_exit (bind (refresh_dashboard E) (\<lambda>_. refresh_admin_dashboard E))"
  unfolding refresh_dashboard_def refresh_admin_dashboard_def when_visible_def
  by (intro no_exit_intros)

lemma emits_refresh_admin_dashboard:
  "emits (\<lambda>ev. ev \<noteq> refresh_timer) (refresh_admin_dashboard E)"
  unfolding refresh_admin_dashboard_def when_visible_def
  by (intro emits_intros) (simp_all add: refresh_timer_def)

text \<open>What follows a first part, inside a try whose handler makes no call.\<close>

lemma emitted_try_bind:
  assumes c: "emits Q c" and f: "\<And>a. emits P (f a)"
  shows "\<exists>evs. emitted (try_except (bind c f) (\<lambda>e. ret ())) s = emitted c s @ evs
           \<and> list_all P evs"
proof -
  obtain r s1 where cs: "c s = (r, s1)" by (cases "c s")
  from c cs obtain e1 where t1: "trace s1 = trace s @ e1"
    unfolding emits_def by (metis snd_conv)
  with cs have ec: "emitted c s = e1" by (simp add: emitted_def)
  show ?thesis
  proof (cases r)
    case (Returned a)
    obtain r2 s2 where fs: "f a s1 = (r2, s2)" by (cases "f a s1")
    from f [of a] fs obtain e2 where t2: "trace s2 = trace s1 @ e2" and p2: "list_all P e2"
      unfolding emits_def by (metis snd_conv)
    from cs Returned fs have "snd (try_except (bind c f) (\<lambda>e. ret ()) s) = s2"
      by (cases r2) (simp_all add: try_except_def bind_def ret_def)
    with t1 t2 have "emitted (try_except (bind c f) (\<lambda>e. ret ())) s = e1 @ e2"
      by (simp add: emitted_def)
    with ec p2 show ?thesis by simp
  next
    case (Raised e)
    with cs have "snd (try_except (bind c f) (\<lambda>e. ret ()) s) = s1"
      by (simp add: try_except_def bind_def ret_def)
    with t1 have "emitted (try_except (bind c f) (\<lambda>e. ret ())) s = e1 @ []"
      by (simp add: emitted_def)
    with ec show ?thesis by (intro exI [of _ "[]"]) simp
  next
    case (Exited n)
    with cs have "snd (try_except (bind c f) (\<lambda>e. ret ()) s) = s1"
      by (simp add: try_except_def bind_def)
    with t1 have "emitted (try_except (bind c f) (\<lambda>e. ret ())) s = e1 @ []"
      by (simp add: emitted_def)
    with ec show ?thesis by (intro exI [of _ "[]"]) simp
  qed
qed

lemma emits_refresh_dashboard: "emits (\<lambda>ev. True) (refresh_dashboard E)"
  unfolding refresh_dashboard_def when_visible_def
  by (intro emits_intros) simp_all

lemma emitted_refresh_dashboard:
  "emitted (refresh_dashboard E) s =
     (case dashboard_window s of
        None \<Rightarrow> []
      | Some w \<Rightarrow>
          if raises E (trace s) (IsVisible w) = None \<and> bool_of E (trace s) (IsVisible w) then
            IsVisible w # Get_available_faculty #
              (if raises E (trace s @ [IsVisible w]) Get_available_faculty = None then
                 Update_faculty_list w (faculty_of E (trace s @ [IsVisible w]) Get_available_faculty) #
                 (if raises E (trace s @ [IsVisible w, Get_available_faculty])
                       (Update_faculty_list w
                          (faculty_of E (trace s @ [IsVisible w]) Get_available_faculty)) = None
                  then [refresh_timer] else [])
               else [])
          else [IsVisible w])"
  by (simp add: emitted_def refresh_dashboard_def when_visible_def prims
      split: option.splits)

lemma handle_faculty_updated_reschedules:
  "fst (handle_faculty_updated E s) = Returned ()
   \<and> (refresh_timer \<in> set (emitted (handle_faculty_updated E) s)
        \<longrightarrow> (\<exists>w. dashboard_window s = Some w \<and> raises E (trace s) (IsVisible w) = None
                 \<and> bool_of E (trace s) (IsVisible w)))
   \<and> (\<forall>w. dashboard_window s = Some w \<and> bool_of E (trace s) (IsVisible w)
          \<and> no_raise E (trace s)
               [IsVisible w, Get_available_faculty,
                Update_faculty_list w (faculty_of E (trace s @ [IsVisible w]) Get_available_faculty)]
        \<longrightarrow> (\<exists>rest. emitted (handle_faculty_updated E) s
               = [IsVisible w, Get_available_faculty,
                  Update_faculty_list w
                    (faculty_of E (trace s @ [IsVisible w]) Get_available_faculty),
                  refresh_timer] @ rest
               \<and> refresh_timer \<notin> set rest))"
proof -
  have r: "fst (handle_faculty_updated E s) = Returned ()"
    unfolding handle_faculty_updated_def
    by (rule try_swallow [OF no_exit_handle_faculty_body])
  from emitted_try_bind [OF emits_refresh_dashboard, of "\<lambda>ev. ev \<noteq> refresh_timer"
      "\<lambda>_. refresh_admin_dashboard E" E s] emits_refresh_admin_dashboard
  obtain evs where em: "emitted (handle_faculty_updated E) s = emitted (refresh_dashboard E) s @ evs"
    and ne: "list_all (\<lambda>ev. ev \<noteq> refresh_timer) evs"
    unfolding handle_faculty_updated_def by blast
  from ne have ne': "refresh_timer \<notin> set evs" by (auto simp add: list_all_iff)
  have a: "refresh_timer \<in> set (emitted (handle_faculty_updated E) s)
        \<longrightarrow> (\<exists>w. dashboard_window s = Some w \<and> raises E (trace s) (IsVisible w) = None
                 \<and> bool_of E (trace s) (IsVisible w))"
  proof (cases "dashboard_window s")
    case None
    with ne' show ?thesis unfolding em emitted_refresh_dashboard by simp
  next
    case (Some w)
    with ne' show ?thesis unfolding em emitted_refresh_dashboard
      by (auto simp add: refresh_timer_def split: if_splits)
  qed
  have b: "\<forall>w. dashboard_window s = Some w \<and> bool_of E (trace s) (IsVisible w)
          \<and> no_raise E (trace s)
               [IsVisible w, Get_available_faculty,
                Update_faculty_list w (faculty_of E (trace s @ [IsVisible w]) Get_available_faculty)]
        \<longrightarrow> (\<exists>rest. emitted (handle_faculty_updated E) s
               = [IsVisible w, Get_available_faculty,
                  Update_faculty_list w
                    (faculty_of E (trace s @ [IsVisible w]) Get_available_faculty),
                  refresh_timer] @ rest
               \<and> refresh_timer \<notin> set rest)"
    using ne' unfolding em emitted_refresh_dashboard by auto
  from r a b show ?thesis by blast
qed

text \<open>
  C7. When \<^verbatim>\<open>show_dashboard_window\<close>, called with student data, returns, it has called
  \<^verbatim>\<open>update_faculty_list\<close> on the dashboard once, with the list that
  \<^verbatim>\<open>get_available_faculty()\<close> had just returned, and its last call schedules
  \<^verbatim>\<open>handle_faculty_updated\<close> after 5000 ms, once. \<^verbatim>\<open>handle_faculty_updated\<close> never raises;
  it schedules itself again only when the dashboard exists and \<^verbatim>\<open>isVisible()\<close> answers
  \<open>True\<close>, and then (when the refresh calls return) it does so once, after setting the
  faculty list again.
\<close>

theorem dashboard_faculty_list_and_refresh:
  "refresh_timer = SingleShot 5000 Ref_handle_faculty_updated
   \<and> (\<forall>st s'. show_dashboard_window E (Some st) s = (Returned (), s')
        \<longrightarrow> (\<exists>dw pre post.
              dashboard_window s' = Some dw
            \<and> emitted (show_dashboard_window E (Some st)) s
                = pre @ [Get_available_faculty,
                         Update_faculty_list dw
                           (faculty_of E (trace s @ pre) Get_available_faculty)]
                      @ post @ [refresh_timer]
            \<and> \<not> list_ex is_update_faculty_list (pre @ post)
            \<and> refresh_timer \<notin> set (pre @ post)))
   \<and> fst (handle_faculty_updated E s) = Returned ()
   \<and> (refresh_timer \<in> set (emitted (handle_faculty_updated E) s)
        \<longrightarrow> (\<exists>w. dashboard_window s = Some w \<and> raises E (trace s) (IsVisible w) = None
                 \<and> bool_of E (trace s) (IsVisible w)))
   \<and> (\<forall>w. dashboard_window s = Some w \<and> bool_of E (trace s) (IsVisible w)
          \<and> no_raise E (trace s)
               [IsVisible w, Get_available_faculty,
                Update_faculty_list w (faculty_of E (trace s @ [IsVisible w]) Get_available_faculty)]
        \<longrightarrow> (\<exists>rest. emitted (handle_faculty_updated E) s
               = [IsVisible w, Get_available_faculty,
                  Update_faculty_list w
                    (faculty_of E (trace s @ [IsVisible w]) Get_available_faculty),
                  refresh_timer] @ rest
               \<and> refresh_timer \<notin> set rest))"
proof -
  have "\<exists>dw pre post.
              dashboard_window s' = Some dw
            \<and> emitted (show_dashboard_window E (Some st)) s
                = pre @ [Get_available_faculty,
                         Update_faculty_list dw
                           (faculty_of E (trace s @ pre) Get_available_faculty)]
                      @ post @ [refresh_timer]
            \<and> \<not> list_ex is_update_faculty_list (pre @ post)
            \<and> refresh_timer \<notin> set (pre @ post)"
    if "show_dashboard_window E (Some st) s = (Returned (), s')" for st s'
    using show_dashboard_window_Returned [OF that] by blast
  with handle_faculty_updated_reschedules [of E s] show ?thesis
    by (simp add: refresh_timer_def)
qed

theorem dashboard_faculty_list_and_refresh_witness:
  "show_dashboard_window listing (Some ana) fresh
     = (Returned (),
        fresh\<lparr>current_student := Some ana, dashboard_window := Some DashboardWindow,
          trace := [New_window DashboardWindow, Set_student DashboardWindow ana,
                    Get_available_faculty, Update_faculty_list DashboardWindow [dr_cruz],
                    Get_student_consultations 7,
                    Update_consultation_history DashboardWindow [],
                    Show_window DashboardWindow, refresh_timer]\<rparr>)
   \<and> (\<exists>dw pre post. emitted (show_dashboard_window listing (Some ana)) fresh
         = pre @ [Get_available_faculty,
                  Update_faculty_list dw
                    (faculty_of listing (trace fresh @ pre) Get_available_faculty)]
               @ post @ [refresh_timer])
   \<and> bool_of (seeing DashboardWindow) (trace at_dashboard) (IsVisible DashboardWindow)
   \<and> refresh_timer \<in> set (emitted (handle_faculty_updated (seeing DashboardWindow)) at_dashboard)
   \<and> \<not> bool_of quiet (trace at_dashboard) (IsVisible DashboardWindow)
   \<and> refresh_timer \<notin> set (emitted (handle_faculty_updated quiet) at_dashboard)"
proof -
  have h: "show_dashboard_window listing (Some ana) fresh
     = (Returned (),
        fresh\<lparr>current_student := Some ana, dashboard_window := Some DashboardWindow,
          trace := [New_window DashboardWindow, Set_student DashboardWindow ana,
                    Get_available_faculty, Update_faculty_list DashboardWindow [dr_cruz],
                    Get_student_consultations 7,
                    Update_consultation_history DashboardWindow [],
                    Show_window DashboardWindow, refresh_timer]\<rparr>)"
    by (simp add: show_dashboard_window_def new_window_def switch_to_def exists_and_visible_def
        hide_if_exists_def bring_up_def listing_def quiet_def fresh_def ana_def prims)
  note t1 = dashboard_faculty_list_and_refresh [of listing fresh]
  from t1 h have a: "\<exists>dw pre post. emitted (show_dashboard_window listing (Some ana)) fresh
         = pre @ [Get_available_faculty,
                  Update_faculty_list dw
                    (faculty_of listing (trace fresh @ pre) Get_available_faculty)]
               @ post @ [refresh_timer]"
    by blast
  have v: "dashboard_window at_dashboard = Some DashboardWindow"
    "bool_of (seeing DashboardWindow) (trace at_dashboard) (IsVisible DashboardWindow)"
    "\<not> bool_of quiet (trace at_dashboard) (IsVisible DashboardWindow)"
    "no_raise (seeing DashboardWindow) (trace at_dashboard)
       [IsVisible DashboardWindow, Get_available_faculty,
        Update_faculty_list DashboardWindow
          (faculty_of (seeing DashboardWindow) (trace at_dashboard @ [IsVisible DashboardWindow])
             Get_available_faculty)]"
    by (simp_all add: at_dashboard_def seeing_def quiet_def)
  from dashboard_faculty_list_and_refresh [of "seeing DashboardWindow" at_dashboard] v
  have "\<exists>rest. emitted (handle_faculty_updated (seeing DashboardWindow)) at_dashboard
               = [IsVisible DashboardWindow, Get_available_faculty,
                  Update_faculty_list DashboardWindow
                    (faculty_of (seeing DashboardWindow)
                       (trace at_dashboard @ [IsVisible DashboardWindow]) Get_available_faculty),
                  refresh_timer] @ rest"
    by blast
  then have b: "refresh_timer \<in> set (emitted (handle_faculty_updated (seeing DashboardWindow))
      at_dashboard)"
    by auto
  from dashboard_faculty_list_and_refresh [of quiet at_dashboard] v
  have c: "refresh_timer \<notin> set (emitted (handle_faculty_updated quiet) at_dashboard)"
    by auto
  from h a v b c show ?thesis by blast
qed

subsection \<open>RFID scans\<close>

lemma init_started:
  "fst (init started False fresh) = Returned ()
   \<and> login_window (snd (init started False fresh)) = None
   \<and> Register_callback Ref_handle_rfid_scan \<in> set (trace (snd (init started False fresh)))"
  by (simp add: init_def init_prefix_def apply_theme_def register_system_services_def
      new_controllers_def init_rest_def verify_admin_account_startup_def
      create_default_admin_def ensure_dr_john_smith_available_def start_system_def
      register_database_def register_mqtt_def register_ui_def
      prims raises_started bool_started started_def quiet_def fresh_def)

lemma handle_rfid_scan_known:
  assumes "handle_rfid_scan E (Some st) rfid_uid s = (Returned (), s')"
  shows "current_student s' = Some st
     \<and> (\<exists>dw. dashboard_window s' = Some dw
            \<and> list_ex (brings_up dw) (emitted (handle_rfid_scan E (Some st) rfid_uid) s))"
proof -
  let ?s0 = "s\<lparr>current_student := Some st\<rparr>"
  have eq: "handle_rfid_scan E (Some st) rfid_uid s = show_dashboard_window E (Some st) ?s0"
    by (simp add: handle_rfid_scan_def handle_student_authenticated_def bind_def modify_def)
  with assms have r: "show_dashboard_window E (Some st) ?s0 = (Returned (), s')" by simp
  from eq have em: "emitted (handle_rfid_scan E (Some st) rfid_uid) s
      = emitted (show_dashboard_window E (Some st)) ?s0"
    by (simp add: emitted_def)
  from show_dashboard_window_Returned [OF r] obtain dw pre post
    where d: "dashboard_window s' = Some dw" "current_student s' = Some st"
      and e: "emitted (show_dashboard_window E (Some st)) ?s0
            = pre @ [Get_available_faculty,
                     Update_faculty_list dw (faculty_of E (trace ?s0 @ pre) Get_available_faculty)]
                  @ post @ [refresh_timer]"
      and b: "list_ex (brings_up dw) post"
    by blast
  from b e em have "list_ex (brings_up dw) (emitted (handle_rfid_scan E (Some st) rfid_uid) s)"
    by (auto simp add: list_ex_iff)
  with d show ?thesis by blast
qed

lemma handle_rfid_scan_unknown:
  "snd (handle_rfid_scan E None rfid_uid s)
     = (case login_window s of
          None \<Rightarrow> s
        | Some w \<Rightarrow> s\<lparr>trace := trace s @ [Show_error w (''Unknown RFID tag: '' @ rfid_uid)]\<rparr>)"
proof -
  define unknown where "unknown = ''Unknown RFID tag: ''"
  show ?thesis
    unfolding handle_rfid_scan_def unknown_def [symmetric]
    by (simp add: prims split: option.splits)
qed

text \<open>
  C4, as amended. A scan with a student, when the handler returns, leaves
  \<^verbatim>\<open>current_student\<close> set to that student and has brought the dashboard window up (by
  \<^verbatim>\<open>show\<close> or by a transition to it). A scan with no student brings no window up and
  leaves \<^verbatim>\<open>current_student\<close> as it is; its only call is \<^verbatim>\<open>show_error\<close> on the login
  window, made when the login window exists, and it makes no call when there is none.
\<close>

theorem handle_rfid_scan_authenticates:
  "(\<forall>st s'. handle_rfid_scan E (Some st) rfid_uid s = (Returned (), s')
       \<longrightarrow> current_student s' = Some st
           \<and> (\<exists>dw. dashboard_window s' = Some dw
                  \<and> list_ex (brings_up dw) (emitted (handle_rfid_scan E (Some st) rfid_uid) s)))
   \<and> current_student (snd (handle_rfid_scan E None rfid_uid s)) = current_student s
   \<and> dashboard_window (snd (handle_rfid_scan E None rfid_uid s)) = dashboard_window s
   \<and> emitted (handle_rfid_scan E None rfid_uid) s
       = (case login_window s of
            None \<Rightarrow> []
          | Some w \<Rightarrow> [Show_error w (''Unknown RFID tag: '' @ rfid_uid)])
   \<and> (\<forall>w. \<not> list_ex (brings_up w) (emitted (handle_rfid_scan E None rfid_uid) s))"
proof -
  note u = handle_rfid_scan_unknown [of E rfid_uid s]
  from u have a: "current_student (snd (handle_rfid_scan E None rfid_uid s)) = current_student s"
    "dashboard_window (snd (handle_rfid_scan E None rfid_uid s)) = dashboard_window s"
    by (simp_all split: option.splits)
  from u have e: "emitted (handle_rfid_scan E None rfid_uid) s
       = (case login_window s of
            None \<Rightarrow> []
          | Some w \<Rightarrow> [Show_error w (''Unknown RFID tag: '' @ rfid_uid)])"
    by (simp add: emitted_def split: option.splits)
  then have b: "\<forall>w. \<not> list_ex (brings_up w) (emitted (handle_rfid_scan E None rfid_uid) s)"
    by (simp split: option.splits)
  from handle_rfid_scan_known a e b show ?thesis by blast
qed

theorem handle_rfid_scan_authenticates_witness:
  "handle_rfid_scan quiet (Some ana) ''04A1B2C3'' (at_dashboard\<lparr>current_student := None\<rparr>)
     = (Returned (),
        at_dashboard\<lparr>trace := [Set_student DashboardWindow ana, Get_available_faculty,
          Update_faculty_list DashboardWindow [], Get_student_consultations 7,
          Update_consultation_history DashboardWindow [], IsVisible LoginWindow,
          IsVisible AdminLoginWindow, Hide LoginWindow, Hide AdminLoginWindow,
          Show_window DashboardWindow, refresh_timer]\<rparr>)
   \<and> list_ex (brings_up DashboardWindow)
        (emitted (handle_rfid_scan quiet (Some ana) ''04A1B2C3'')
           (at_dashboard\<lparr>current_student := None\<rparr>))
   \<and> emitted (handle_rfid_scan quiet None ''04A1B2C3'') at_dashboard
       = [Show_error LoginWindow ''Unknown RFID tag: 04A1B2C3'']
   \<and> current_student (snd (handle_rfid_scan quiet None ''04A1B2C3'' at_dashboard)) = Some ana"
proof -
  have h: "handle_rfid_scan quiet (Some ana) ''04A1B2C3'' (at_dashboard\<lparr>current_student := None\<rparr>)
     = (Returned (),
        at_dashboard\<lparr>trace := [Set_student DashboardWindow ana, Get_available_faculty,
          Update_faculty_list DashboardWindow [], Get_student_consultations 7,
          Update_consultation_history DashboardWindow [], IsVisible LoginWindow,
          IsVisible AdminLoginWindow, Hide LoginWindow, Hide AdminLoginWindow,
          Show_window DashboardWindow, refresh_timer]\<rparr>)"
    by (simp add: handle_rfid_scan_def handle_student_authenticated_def
        show_dashboard_window_def switch_to_def exists_and_visible_def
        hide_if_exists_def bring_up_def quiet_def at_dashboard_def ana_def prims)
  note t1 = handle_rfid_scan_authenticates
    [of quiet "''04A1B2C3''" "at_dashboard\<lparr>current_student := None\<rparr>"]
  from t1 h have "\<exists>dw. dashboard_window (at_dashboard\<lparr>trace := [Set_student DashboardWindow ana,
          Get_available_faculty,
          Update_faculty_list DashboardWindow [], Get_student_consultations 7,
          Update_consultation_history DashboardWindow [], IsVisible LoginWindow,
          IsVisible AdminLoginWindow, Hide LoginWindow, Hide AdminLoginWindow,
          Show_window DashboardWindow, refresh_timer]\<rparr>) = Some dw
     \<and> list_ex (brings_up dw) (emitted (handle_rfid_scan quiet (Some ana) ''04A1B2C3'')
           (at_dashboard\<lparr>current_student := None\<rparr>))"
    by blast
  then have a: "list_ex (brings_up DashboardWindow)
        (emitted (handle_rfid_scan quiet (Some ana) ''04A1B2C3'')
           (at_dashboard\<lparr>current_student := None\<rparr>))"
    by (simp add: at_dashboard_def)
  note t2 = handle_rfid_scan_authenticates [of quiet "''04A1B2C3''" at_dashboard]
  from t2 have b: "emitted (handle_rfid_scan quiet None ''04A1B2C3'') at_dashboard
       = [Show_error LoginWindow ''Unknown RFID tag: 04A1B2C3'']"
    by (simp add: at_dashboard_def)
  from t2 have c: "current_student (snd (handle_rfid_scan quiet None ''04A1B2C3'' at_dashboard))
      = Some ana"
    by (simp add: at_dashboard_def)
  from h a b c show ?thesis by blast
qed

text \<open>
  The claim as stated fails where there is no login window, as right after \<^verbatim>\<open>__init__\<close>,
  which has registered \<^verbatim>\<open>handle_rfid_scan\<close> with the RFID controller: a scan of an unknown
  tag then shows no error.
\<close>

theorem handle_rfid_scan_unknown_without_login_window:
  "fst (init started False fresh) = Returned ()
   \<and> Register_callback Ref_handle_rfid_scan \<in> set (trace (snd (init started False fresh)))
   \<and> login_window (snd (init started False fresh)) = None
   \<and> fst (handle_rfid_scan started None ''04A1B2C3'' (snd (init started False fresh)))
       = Returned ()
   \<and> \<not> list_ex is_show_error
        (emitted (handle_rfid_scan started None ''04A1B2C3'') (snd (init started False fresh)))"
proof -
  from init_started have n: "login_window (snd (init started False fresh)) = None" by blast
  then have r: "handle_rfid_scan started None ''04A1B2C3'' (snd (init started False fresh))
      = (Returned (), snd (init started False fresh))"
    by (simp add: handle_rfid_scan_def prims)
  then have "emitted (handle_rfid_scan started None ''04A1B2C3'') (snd (init started False fresh))
      = []"
    by (simp add: emitted_def)
  with init_started r show ?thesis by simp
qed

subsection \<open>Consultation requests\<close>

lemma hcr_raises:
  assumes cs: "current_student s = Some st"
    and r: "raises E (trace s) (create_call st fac message course_code) = Some e"
    and se: "show_error_returns E"
  shows "fst (handle_consultation_request E fac message course_code s)
           = Returned (False, ''Error: '' @ str_of_exn e)"
proof -
  define err where "err = ''Error: ''"
  from se have se': "\<And>h w msg. raises E h (Show_error w msg) = None"
    by (simp add: show_error_returns_def)
  from cs r show ?thesis
    unfolding handle_consultation_request_def create_call_def show_error_if_exists_def
      err_def [symmetric]
    by (simp add: prims se' split: option.splits)
qed

lemma hcr_none:
  assumes cs: "current_student s = Some st"
    and r: "raises E (trace s) (create_call st fac message course_code) = None"
    and n: "consultation_of E (trace s) (create_call st fac message course_code) = None"
    and se: "show_error_returns E"
  shows "fst (handle_consultation_request E fac message course_code s)
           = Returned (False, ''Failed to create consultation request'')"
proof -
  define err where "err = ''Error: ''"
  define failed where "failed = ''Failed to create consultation request''"
  from se have se': "\<And>h w msg. raises E h (Show_error w msg) = None"
    by (simp add: show_error_returns_def)
  from cs r n show ?thesis
    unfolding handle_consultation_request_def create_call_def show_error_if_exists_def
      err_def [symmetric] failed_def [symmetric]
    by (simp add: prims se' split: option.splits)
qed

lemma hcr_some:
  assumes cs: "current_student s = Some st"
    and r: "raises E (trace s) (create_call st fac message course_code) = None"
    and n: "consultation_of E (trace s) (create_call st fac message course_code) = Some c"
    and ok: "\<forall>w. dashboard_window s = Some w
        \<longrightarrow> no_raise E (trace s @ [create_call st fac message course_code])
              (refresh_calls E (trace s @ [create_call st fac message course_code]) st fac w)"
  shows "fst (handle_consultation_request E fac message course_code s)
           = Returned (True, ''Consultation request sent'')"
proof -
  define err where "err = ''Error: ''"
  define sent where "sent = ''Consultation request sent''"
  define sent_to where "sent_to = ''Consultation request sent to ''"
  from cs r n ok show ?thesis
    unfolding handle_consultation_request_def create_call_def show_error_if_exists_def
      refresh_calls_def err_def [symmetric] sent_def [symmetric] sent_to_def [symmetric]
    by (cases "dashboard_window s") (simp_all add: prims split: option.splits)
qed

lemma hcr_some_refresh_raises:
  assumes cs: "current_student s = Some st"
    and r: "raises E (trace s) (create_call st fac message course_code) = None"
    and n: "consultation_of E (trace s) (create_call st fac message course_code) = Some c"
    and dw: "dashboard_window s = Some w"
    and bad: "\<not> no_raise E (trace s @ [create_call st fac message course_code])
              (refresh_calls E (trace s @ [create_call st fac message course_code]) st fac w)"
    and se: "show_error_returns E"
  shows "\<exists>e. fst (handle_consultation_request E fac message course_code s)
           = Returned (False, ''Error: '' @ str_of_exn e)"
proof -
  define err where "err = ''Error: ''"
  define sent where "sent = ''Consultation request sent''"
  define sent_to where "sent_to = ''Consultation request sent to ''"
  from se have se': "\<And>h w msg. raises E h (Show_error w msg) = None"
    by (simp add: show_error_returns_def)
  from cs r n dw bad show ?thesis
    unfolding handle_consultation_request_def create_call_def show_error_if_exists_def
      refresh_calls_def err_def [symmetric] sent_def [symmetric] sent_to_def [symmetric]
    by (auto simp add: prims se' split: option.splits)
qed

lemma hcr_true_only_if:
  assumes cs: "current_student s = Some st"
    and t: "fst (handle_consultation_request E fac message course_code s) = Returned (True, m)"
  shows "raises E (trace s) (create_call st fac message course_code) = None
     \<and> consultation_of E (trace s) (create_call st fac message course_code) \<noteq> None
     \<and> m = ''Consultation request sent''"
proof -
  define err where "err = ''Error: ''"
  define sent where "sent = ''Consultation request sent''"
  define sent_to where "sent_to = ''Consultation request sent to ''"
  define failed where "failed = ''Failed to create consultation request''"
  from cs t show ?thesis
    unfolding handle_consultation_request_def create_call_def show_error_if_exists_def
      err_def [symmetric] sent_def [symmetric] sent_to_def [symmetric] failed_def [symmetric]
    by (auto simp add: prims split: option.splits if_splits prod.splits outcome.splits)
qed

text \<open>
  C5, as amended. For a request made while a student is logged in:
  the result is \<open>(True, m)\<close> only if \<^verbatim>\<open>create_consultation\<close> returned a consultation, and
  then \<open>m\<close> is "Consultation request sent"; it is that pair whenever
  \<^verbatim>\<open>create_consultation\<close> returns a consultation and the refresh of the dashboard that
  follows (when a dashboard window exists) does not raise. As long as the dashboard's
  \<^verbatim>\<open>show_error\<close> does not raise, nothing is propagated: the result is
  \<open>(False, "Error: ...")\<close> when the refresh raises or \<^verbatim>\<open>create_consultation\<close> raises, and
  \<open>(False, "Failed to create consultation request")\<close> when \<^verbatim>\<open>create_consultation\<close> returns
  nothing.
\<close>

theorem handle_consultation_request_result:
  assumes "current_student s = Some st"
  shows "(\<forall>m. fst (handle_consultation_request E fac message course_code s) = Returned (True, m)
        \<longrightarrow> raises E (trace s) (create_call st fac message course_code) = None
            \<and> consultation_of E (trace s) (create_call st fac message course_code) \<noteq> None
            \<and> m = ''Consultation request sent'')
   \<and> (raises E (trace s) (create_call st fac message course_code) = None
      \<and> consultation_of E (trace s) (create_call st fac message course_code) \<noteq> None
      \<and> (\<forall>w. dashboard_window s = Some w
            \<longrightarrow> no_raise E (trace s @ [create_call st fac message course_code])
                  (refresh_calls E (trace s @ [create_call st fac message course_code]) st fac w))
        \<longrightarrow> fst (handle_consultation_request E fac message course_code s)
              = Returned (True, ''Consultation request sent''))
   \<and> (show_error_returns E
      \<and> raises E (trace s) (create_call st fac message course_code) = None
      \<and> consultation_of E (trace s) (create_call st fac message course_code) \<noteq> None
      \<and> (\<exists>w. dashboard_window s = Some w
            \<and> \<not> no_raise E (trace s @ [create_call st fac message course_code])
                  (refresh_calls E (trace s @ [create_call st fac message course_code]) st fac w))
        \<longrightarrow> (\<exists>e. fst (handle_consultation_request E fac message course_code s)
                  = Returned (False, ''Error: '' @ str_of_exn e)))
   \<and> (show_error_returns E
      \<and> raises E (trace s) (create_call st fac message course_code) = None
      \<and> consultation_of E (trace s) (create_call st fac message course_code) = None
        \<longrightarrow> fst (handle_consultation_request E fac message course_code s)
              = Returned (False, ''Failed to create consultation request''))
   \<and> (\<forall>e. show_error_returns E
      \<and> raises E (trace s) (create_call st fac message course_code) = Some e
        \<longrightarrow> fst (handle_consultation_request E fac message course_code s)
              = Returned (False, ''Error: '' @ str_of_exn e))"
proof (intro conjI allI impI)
  fix m
  assume "fst (handle_consultation_request E fac message course_code s) = Returned (True, m)"
  from hcr_true_only_if [OF assms this]
  show "raises E (trace s) (create_call st fac message course_code) = None"
    "consultation_of E (trace s) (create_call st fac message course_code) \<noteq> None"
    "m = ''Consultation request sent''"
    by blast+
next
  assume a: "raises E (trace s) (create_call st fac message course_code) = None
      \<and> consultation_of E (trace s) (create_call st fac message course_code) \<noteq> None
      \<and> (\<forall>w. dashboard_window s = Some w
            \<longrightarrow> no_raise E (trace s @ [create_call st fac message course_code])
                  (refresh_calls E (trace s @ [create_call st fac message course_code]) st fac w))"
  then obtain c where "consultation_of E (trace s) (create_call st fac message course_code) = Some c"
    by blast
  with a hcr_some [OF assms]
  show "fst (handle_consultation_request E fac message course_code s)
              = Returned (True, ''Consultation request sent'')"
    by blast
next
  assume a: "show_error_returns E
      \<and> raises E (trace s) (create_call st fac message course_code) = None
      \<and> consultation_of E (trace s) (create_call st fac message course_code) \<noteq> None
      \<and> (\<exists>w. dashboard_window s = Some w
            \<and> \<not> no_raise E (trace s @ [create_call st fac message course_code])
                  (refresh_calls E (trace s @ [create_call st fac message course_code]) st fac w))"
  then obtain c w
    where "consultation_of E (trace s) (create_call st fac message course_code) = Some c"
      and "dashboard_window s = Some w"
      and "\<not> no_raise E (trace s @ [create_call st fac message course_code])
                  (refresh_calls E (trace s @ [create_call st fac message course_code]) st fac w)"
    by blast
  with a hcr_some_refresh_raises [OF assms]
  show "\<exists>e. fst (handle_consultation_request E fac message course_code s)
                  = Returned (False, ''Error: '' @ str_of_exn e)"
    by blast
next
  assume "show_error_returns E
      \<and> raises E (trace s) (create_call st fac message course_code) = None
      \<and> consultation_of E (trace s) (create_call st fac message course_code) = None"
  with hcr_none [OF assms]
  show "fst (handle_consultation_request E fac message course_code s)
              = Returned (False, ''Failed to create consultation request'')"
    by blast
next
  fix e
  assume "show_error_returns E
      \<and> raises E (trace s) (create_call st fac message course_code) = Some e"
  with hcr_raises [OF assms]
  show "fst (handle_consultation_request E fac message course_code s)
              = Returned (False, ''Error: '' @ str_of_exn e)"
    by blast
qed

lemma at_dashboard_student: "current_student at_dashboard = Some ana"
  by (simp add: at_dashboard_def)

theorem handle_consultation_request_result_witness:
  "current_student at_dashboard = Some ana
   \<and> fst (handle_consultation_request granting dr_cruz ''hello'' ''CS101'' at_dashboard)
       = Returned (True, ''Consultation request sent'')
   \<and> show_error_returns quiet
   \<and> fst (handle_consultation_request quiet dr_cruz ''hello'' ''CS101'' at_dashboard)
       = Returned (False, ''Failed to create consultation request'')
   \<and> show_error_returns (failing (create_call ana dr_cruz ''hello'' ''CS101''))
   \<and> fst (handle_consultation_request (failing (create_call ana dr_cruz ''hello'' ''CS101''))
            dr_cruz ''hello'' ''CS101'' at_dashboard)
       = Returned (False, ''Error: down'')
   \<and> consultation_of granting (trace at_dashboard) (create_call ana dr_cruz ''hello'' ''CS101'')
       \<noteq> None
   \<and> show_error_returns refresh_fails
   \<and> \<not> no_raise refresh_fails
         (trace at_dashboard @ [create_call ana dr_cruz ''hello'' ''CS101''])
         (refresh_calls refresh_fails
            (trace at_dashboard @ [create_call ana dr_cruz ''hello'' ''CS101''])
            ana dr_cruz DashboardWindow)
   \<and> (\<exists>e. fst (handle_consultation_request refresh_fails dr_cruz ''hello'' ''CS101''
                   at_dashboard)
          = Returned (False, ''Error: '' @ str_of_exn e))"
proof -
  note tr = handle_consultation_request_result [where E = refresh_fails and fac = dr_cruz
      and message = "''hello''" and course_code = "''CS101''", OF at_dashboard_student]
  note tg = handle_consultation_request_result [where E = granting and fac = dr_cruz
      and message = "''hello''" and course_code = "''CS101''", OF at_dashboard_student]
  note tq = handle_consultation_request_result [where E = quiet and fac = dr_cruz
      and message = "''hello''" and course_code = "''CS101''", OF at_dashboard_student]
  note tf = handle_consultation_request_result
    [where E = "failing (create_call ana dr_cruz ''hello'' ''CS101'')" and fac = dr_cruz
      and message = "''hello''" and course_code = "''CS101''", OF at_dashboard_student]
  have g: "raises granting h ev = None"
    "consultation_of granting h ev = Some \<lparr>consultation_id = 1\<rparr>" for h ev
    by (simp_all add: granting_def quiet_def)
  have gn: "no_raise granting h evs" for h evs
    by (induction evs arbitrary: h) (simp_all add: g)
  from tg [THEN conjunct2, THEN conjunct1] g gn
  have a: "fst (handle_consultation_request granting dr_cruz ''hello'' ''CS101'' at_dashboard)
       = Returned (True, ''Consultation request sent'')"
    by simp
  have q: "show_error_returns quiet" "consultation_of quiet h ev = None" for h ev
    by (simp_all add: show_error_returns_def quiet_def)
  from tq [THEN conjunct2, THEN conjunct2, THEN conjunct2, THEN conjunct1] q raises_quiet
  have b: "fst (handle_consultation_request quiet dr_cruz ''hello'' ''CS101'' at_dashboard)
       = Returned (False, ''Failed to create consultation request'')"
    by simp
  have f: "show_error_returns (failing (create_call ana dr_cruz ''hello'' ''CS101''))"
    "raises (failing (create_call ana dr_cruz ''hello'' ''CS101'')) h
       (create_call ana dr_cruz ''hello'' ''CS101'') = Some (Exception ''down'')" for h
    by (simp_all add: show_error_returns_def failing_def quiet_def create_call_def)
  from tf [THEN conjunct2, THEN conjunct2, THEN conjunct2, THEN conjunct2] f
  have c: "fst (handle_consultation_request (failing (create_call ana dr_cruz ''hello'' ''CS101''))
            dr_cruz ''hello'' ''CS101'' at_dashboard)
       = Returned (False, ''Error: down'')"
    by simp
  from tg [THEN conjunct1] a
  have d: "consultation_of granting (trace at_dashboard)
      (create_call ana dr_cruz ''hello'' ''CS101'') \<noteq> None"
    by blast
  have rf: "show_error_returns refresh_fails"
    "raises refresh_fails (trace at_dashboard) (create_call ana dr_cruz ''hello'' ''CS101'')
       = None"
    "consultation_of refresh_fails (trace at_dashboard)
       (create_call ana dr_cruz ''hello'' ''CS101'') \<noteq> None"
    "dashboard_window at_dashboard = Some DashboardWindow"
    "\<not> no_raise refresh_fails
         (trace at_dashboard @ [create_call ana dr_cruz ''hello'' ''CS101''])
         (refresh_calls refresh_fails
            (trace at_dashboard @ [create_call ana dr_cruz ''hello'' ''CS101''])
            ana dr_cruz DashboardWindow)"
    by (simp_all add: show_error_returns_def refresh_fails_def granting_def quiet_def
        create_call_def refresh_calls_def at_dashboard_def ana_def)
  from tr [THEN conjunct2, THEN conjunct2, THEN conjunct1] rf
  have e: "\<exists>e. fst (handle_consultation_request refresh_fails dr_cruz ''hello'' ''CS101''
                   at_dashboard)
          = Returned (False, ''Error: '' @ str_of_exn e)"
    by blast
  from at_dashboard_student a q(1) b f(1) c d rf(1) rf(5) e show ?thesis by blast
qed

text \<open>
  The claim as stated fails when the refresh of the dashboard raises:
  \<^verbatim>\<open>create_consultation\<close> has returned a consultation, and the result is \<open>False\<close>.
\<close>

theorem handle_consultation_request_refresh_fails:
  "current_student at_dashboard = Some ana
   \<and> raises refresh_fails (trace at_dashboard) (create_call ana dr_cruz ''hello'' ''CS101'') = None
   \<and> consultation_of refresh_fails (trace at_dashboard)
        (create_call ana dr_cruz ''hello'' ''CS101'') = Some \<lparr>consultation_id = 1\<rparr>
   \<and> fst (handle_consultation_request refresh_fails dr_cruz ''hello'' ''CS101'' at_dashboard)
       = Returned (False, ''Error: down'')"
  by (simp add: handle_consultation_request_def show_error_if_exists_def create_call_def
      refresh_fails_def granting_def quiet_def at_dashboard_def ana_def dr_cruz_def prims)

subsection \<open>The service callables\<close>

lemma start_ui_service_result:
  "fst (start_ui_service E s) = Returned (fst (show_login_window E s) = Returned ())"
  unfolding start_ui_service_def by (rule try_True_False [OF no_exit_show_login_window])

text \<open>
  C3. Each of the nine service callables returns a boolean and propagates no exception:
  \<open>True\<close> when the calls of its body return, \<open>False\<close> when one of them raises. The health
  check of the MQTT service returns what \<^verbatim>\<open>is_connected()\<close> answers when nothing raises.
  The bodies of \<^verbatim>\<open>_stop_ui_service\<close> and \<^verbatim>\<open>_check_ui_health\<close> are empty, so both return
  \<open>True\<close>.
\<close>

theorem service_callables_return_bool:
  "fst (start_database_service E s)
     = Returned (no_raise E (trace s) [Import ''central_system.models.base'', Fn ''get_db''])
   \<and> fst (stop_database_service E s)
     = Returned (no_raise E (trace s) [Import ''central_system.models.base'', Fn ''get_db''])
   \<and> fst (check_database_health E s)
     = Returned (no_raise E (trace s) [Import ''central_system.models.base'', Fn ''get_db''])
   \<and> fst (start_mqtt_service E s)
     = Returned (no_raise E (trace s)
         [Fn ''get_async_mqtt_service'', Fn ''mqtt_service.connect''])
   \<and> fst (stop_mqtt_service E s)
     = Returned (no_raise E (trace s)
         [Fn ''get_async_mqtt_service'', Fn ''mqtt_service.disconnect''])
   \<and> fst (check_mqtt_health E s)
     = Returned (no_raise E (trace s)
         [Fn ''get_async_mqtt_service'', Fn ''mqtt_service.is_connected'']
        \<and> bool_of E (trace s @ [Fn ''get_async_mqtt_service''])
             (Fn ''mqtt_service.is_connected''))
   \<and> fst (start_ui_service E s) = Returned (fst (show_login_window E s) = Returned ())
   \<and> fst (stop_ui_service E s) = Returned True
   \<and> fst (check_ui_health E s) = Returned True"
proof -
  have db: "fst (start_database_service E s)
      = Returned (no_raise E (trace s) [Import ''central_system.models.base'', Fn ''get_db''])"
    "fst (stop_database_service E s)
      = Returned (no_raise E (trace s) [Import ''central_system.models.base'', Fn ''get_db''])"
    "fst (check_database_health E s)
      = Returned (no_raise E (trace s) [Import ''central_system.models.base'', Fn ''get_db''])"
    by (simp_all add: start_database_service_def stop_database_service_def
        check_database_health_def prims split: option.splits)
  have mqtt: "fst (start_mqtt_service E s)
      = Returned (no_raise E (trace s)
          [Fn ''get_async_mqtt_service'', Fn ''mqtt_service.connect''])"
    "fst (stop_mqtt_service E s)
      = Returned (no_raise E (trace s)
          [Fn ''get_async_mqtt_service'', Fn ''mqtt_service.disconnect''])"
    "fst (check_mqtt_health E s)
      = Returned (no_raise E (trace s)
          [Fn ''get_async_mqtt_service'', Fn ''mqtt_service.is_connected'']
         \<and> bool_of E (trace s @ [Fn ''get_async_mqtt_service''])
              (Fn ''mqtt_service.is_connected''))"
    by (simp_all add: start_mqtt_service_def stop_mqtt_service_def check_mqtt_health_def prims
        split: option.splits)
  have ui: "fst (stop_ui_service E s) = Returned True" "fst (check_ui_health E s) = Returned True"
    by (simp_all add: stop_ui_service_def check_ui_health_def prims)
  from db mqtt ui start_ui_service_result show ?thesis by simp
qed

theorem service_callables_return_bool_witness:
  "fst (start_database_service (failing (Fn ''get_db'')) fresh) = Returned False
   \<and> fst (start_mqtt_service quiet fresh) = Returned True
   \<and> fst (check_mqtt_health quiet fresh) = Returned False
   \<and> fst (check_mqtt_health (quiet\<lparr>bool_of := (\<lambda>h ev. True)\<rparr>) fresh) = Returned True
   \<and> fst (start_ui_service (failing (New_window LoginWindow)) fresh) = Returned False"
proof -
  have ui: "fst (show_login_window (failing (New_window LoginWindow)) fresh)
              = Raised (Exception ''down'')"
    by (simp add: show_login_window_def new_window_def failing_def quiet_def fresh_def prims)
  show ?thesis
    using service_callables_return_bool [of "failing (Fn ''get_db'')" fresh]
      service_callables_return_bool [of quiet fresh]
      service_callables_return_bool [of "quiet\<lparr>bool_of := (\<lambda>h ev. True)\<rparr>" fresh]
      service_callables_return_bool [of "failing (New_window LoginWindow)" fresh] ui
    by (simp add: failing_def quiet_def fresh_def)
qed

text \<open>
  C6. One invocation of a start function makes one attempt: \<^verbatim>\<open>_start_mqtt_service\<close> calls
  \<^verbatim>\<open>connect()\<close> at most once and \<^verbatim>\<open>_start_database_service\<close> calls \<^verbatim>\<open>get_db()\<close> at most once;
  the calls stop at the first one that raises, and the function then returns \<open>False\<close>.
\<close>

theorem start_services_single_attempt:
  "emitted (start_mqtt_service E) s
     = (if raises E (trace s) (Fn ''get_async_mqtt_service'') = None
        then [Fn ''get_async_mqtt_service'', Fn ''mqtt_service.connect'']
        else [Fn ''get_async_mqtt_service''])
   \<and> count_list (emitted (start_mqtt_service E) s) (Fn ''mqtt_service.connect'') \<le> 1
   \<and> (\<not> no_raise E (trace s) [Fn ''get_async_mqtt_service'', Fn ''mqtt_service.connect'']
        \<longrightarrow> fst (start_mqtt_service E s) = Returned False)
   \<and> emitted (start_database_service E) s
     = (if raises E (trace s) (Import ''central_system.models.base'') = None
        then [Import ''central_system.models.base'', Fn ''get_db'']
        else [Import ''central_system.models.base''])
   \<and> count_list (emitted (start_database_service E) s) (Fn ''get_db'') \<le> 1
   \<and> (\<not> no_raise E (trace s) [Import ''central_system.models.base'', Fn ''get_db'']
        \<longrightarrow> fst (start_database_service E s) = Returned False)"
proof -
  have m: "emitted (start_mqtt_service E) s
     = (if raises E (trace s) (Fn ''get_async_mqtt_service'') = None
        then [Fn ''get_async_mqtt_service'', Fn ''mqtt_service.connect'']
        else [Fn ''get_async_mqtt_service''])"
    by (simp add: emitted_def start_mqtt_service_def prims split: option.splits)
  have d: "emitted (start_database_service E) s
     = (if raises E (trace s) (Import ''central_system.models.base'') = None
        then [Import ''central_system.models.base'', Fn ''get_db'']
        else [Import ''central_system.models.base''])"
    by (simp add: emitted_def start_database_service_def prims split: option.splits)
  have mr: "fst (start_mqtt_service E s) = Returned (no_raise E (trace s)
       [Fn ''get_async_mqtt_service'', Fn ''mqtt_service.connect''])"
    by (simp add: start_mqtt_service_def prims split: option.splits)
  have dr: "fst (start_database_service E s) = Returned (no_raise E (trace s)
       [Import ''central_system.models.base'', Fn ''get_db''])"
    by (simp add: start_database_service_def prims split: option.splits)
  from m have mc: "count_list (emitted (start_mqtt_service E) s) (Fn ''mqtt_service.connect'') \<le> 1"
    by simp
  from d have dc: "count_list (emitted (start_database_service E) s) (Fn ''get_db'') \<le> 1"
    by simp
  from m d mc dc mr dr show ?thesis by simp
qed

theorem start_services_single_attempt_witness:
  "\<not> no_raise (failing (Fn ''mqtt_service.connect'')) []
        [Fn ''get_async_mqtt_service'', Fn ''mqtt_service.connect'']
   \<and> fst (start_mqtt_service (failing (Fn ''mqtt_service.connect'')) fresh) = Returned False
   \<and> emitted (start_mqtt_service (failing (Fn ''mqtt_service.connect''))) fresh
       = [Fn ''get_async_mqtt_service'', Fn ''mqtt_service.connect'']
   \<and> \<not> no_raise (failing (Fn ''get_db'')) []
        [Import ''central_system.models.base'', Fn ''get_db'']
   \<and> fst (start_database_service (failing (Fn ''get_db'')) fresh) = Returned False
   \<and> emitted (start_database_service (failing (Fn ''get_db''))) fresh
       = [Import ''central_system.models.base'', Fn ''get_db'']"
  using start_services_single_attempt [of "failing (Fn ''mqtt_service.connect'')" fresh]
    start_services_single_attempt [of "failing (Fn ''get_db'')" fresh]
  by (simp add: failing_def quiet_def fresh_def)

subsection \<open>The theme preference\<close>

text \<open>
  C9. \<^verbatim>\<open>_get_theme_preference\<close> always returns \<open>'light'\<close> or \<open>'dark'\<close>: the configured value
  when it is one of the two, \<open>'dark'\<close> when it is anything else, and \<open>'dark'\<close> when reading
  the configuration raises; it propagates no exception.
\<close>

theorem get_theme_preference_light_or_dark:
  "(fst (get_theme_preference E s) = Returned (PStr ''light'')
      \<or> fst (get_theme_preference E s) = Returned (PStr ''dark''))
   \<and> (\<forall>e. fst (read_theme E s) = Raised e
          \<longrightarrow> fst (get_theme_preference E s) = Returned (PStr ''dark''))
   \<and> (\<forall>v. fst (read_theme E s) = Returned v \<and> v \<noteq> PStr ''light'' \<and> v \<noteq> PStr ''dark''
          \<longrightarrow> fst (get_theme_preference E s) = Returned (PStr ''dark''))
   \<and> (\<forall>v. fst (read_theme E s) = Returned v \<and> (v = PStr ''light'' \<or> v = PStr ''dark'')
          \<longrightarrow> fst (get_theme_preference E s) = Returned v)
   \<and> (\<forall>n. fst (read_theme E s) \<noteq> Exited n)"
proof -
  obtain r s1 where rt: "read_theme E s = (r, s1)" by (cases "read_theme E s")
  have "no_exit (read_theme E)"
    unfolding read_theme_def by (intro no_exit_intros)
  with rt have ne: "\<forall>n. r \<noteq> Exited n" by (metis fst_conv no_exit_def)
  show ?thesis
  proof (cases r)
    case (Returned v)
    with rt show ?thesis by (auto simp add: get_theme_preference_def prims)
  next
    case (Raised e)
    with rt show ?thesis by (simp add: get_theme_preference_def prims)
  next
    case (Exited n)
    with ne show ?thesis by simp
  qed
qed

theorem get_theme_preference_light_or_dark_witness:
  "fst (read_theme (quiet\<lparr>config_of :=
          (\<lambda>h ev. PDict [(''ui'', PDict [(''theme'', PStr ''light'')])])\<rparr>) fresh)
     = Returned (PStr ''light'')
   \<and> fst (get_theme_preference (quiet\<lparr>config_of :=
          (\<lambda>h ev. PDict [(''ui'', PDict [(''theme'', PStr ''light'')])])\<rparr>) fresh)
     = Returned (PStr ''light'')
   \<and> fst (read_theme (quiet\<lparr>config_of :=
          (\<lambda>h ev. PDict [(''ui'', PDict [(''theme'', PInt 7)])])\<rparr>) fresh)
     = Returned (PInt 7)
   \<and> fst (get_theme_preference (quiet\<lparr>config_of :=
          (\<lambda>h ev. PDict [(''ui'', PDict [(''theme'', PInt 7)])])\<rparr>) fresh)
     = Returned (PStr ''dark'')
   \<and> fst (read_theme (quiet\<lparr>config_of := (\<lambda>h ev. PDict [(''ui'', PStr ''plain'')])\<rparr>) fresh)
     = Raised (AttributeError ''get'')
   \<and> fst (get_theme_preference
          (quiet\<lparr>config_of := (\<lambda>h ev. PDict [(''ui'', PStr ''plain'')])\<rparr>) fresh)
     = Returned (PStr ''dark'')"
proof -
  have r1: "fst (read_theme (quiet\<lparr>config_of :=
          (\<lambda>h ev. PDict [(''ui'', PDict [(''theme'', PStr ''light'')])])\<rparr>) fresh)
     = Returned (PStr ''light'')"
    by (simp add: read_theme_def configured_theme_def py_get_def quiet_def fresh_def prims)
  have r2: "fst (read_theme (quiet\<lparr>config_of :=
          (\<lambda>h ev. PDict [(''ui'', PDict [(''theme'', PInt 7)])])\<rparr>) fresh)
     = Returned (PInt 7)"
    by (simp add: read_theme_def configured_theme_def py_get_def quiet_def fresh_def prims)
  have r3: "fst (read_theme (quiet\<lparr>config_of := (\<lambda>h ev. PDict [(''ui'', PStr ''plain'')])\<rparr>) fresh)
     = Raised (AttributeError ''get'')"
    by (simp add: read_theme_def configured_theme_def py_get_def quiet_def fresh_def prims)
  from r1 r2 r3
    get_theme_preference_light_or_dark [of "quiet\<lparr>config_of :=
          (\<lambda>h ev. PDict [(''ui'', PDict [(''theme'', PStr ''light'')])])\<rparr>" fresh]
    get_theme_preference_light_or_dark [of "quiet\<lparr>config_of :=
          (\<lambda>h ev. PDict [(''ui'', PDict [(''theme'', PInt 7)])])\<rparr>" fresh]
    get_theme_preference_light_or_dark [of
          "quiet\<lparr>config_of := (\<lambda>h ev. PDict [(''ui'', PStr ''plain'')])\<rparr>" fresh]
  show ?thesis by simp
qed

section \<open>Properties of the migration\<close>

lemma column_names:
  "col_name declined_at = ''declined_at''" "col_name response_message = ''response_message''"
  "declined_at \<noteq> response_message"
  by (simp_all add: declined_at_def response_message_def)

lemmas mig_prims = mig_bind_def mig_ret_def attempt_def add_column_def get_column_names_def

text \<open>The four shapes of a run, by which of the two names the table has.\<close>

lemma upgrade_both_present:
  assumes "''declined_at'' \<in> set (map col_name (cols db))"
    and "''response_message'' \<in> set (map col_name (cols db))"
  shows "cols (snd (upgrade M db)) = cols db"
    and "fst (upgrade M db) = Inr (no_step_throws M db)"
proof -
  define dn where "dn = ''declined_at''"
  define rn where "rn = ''response_message''"
  from assms have a: "dn \<in> set (map col_name (cols db))" "rn \<in> set (map col_name (cols db))"
    by (simp_all add: dn_def rn_def)
  show "cols (snd (upgrade M db)) = cols db"
    using a unfolding upgrade_def upgrade_steps_def dn_def [symmetric] rn_def [symmetric]
    by (simp add: mig_prims split: option.splits)
  from assms have p: "planned db = [Get_db_engine, Inspect_engine, Get_columns]"
    by (simp add: planned_def column_names)
  show "fst (upgrade M db) = Inr (no_step_throws M db)"
    using a unfolding upgrade_def upgrade_steps_def no_step_throws_def p
      dn_def [symmetric] rn_def [symmetric]
    by (simp add: mig_prims split: option.splits)
qed

lemma upgrade_declined_absent:
  assumes "''declined_at'' \<notin> set (map col_name (cols db))"
    and "''response_message'' \<in> set (map col_name (cols db))"
  shows "cols (snd (upgrade M db)) = cols db \<or> cols (snd (upgrade M db)) = cols db @ [declined_at]"
    and "fst (upgrade M db) = Inr (no_step_throws M db)"
    and "no_step_throws M db \<longrightarrow> cols (snd (upgrade M db)) = cols db @ [declined_at]"
proof -
  define dn where "dn = ''declined_at''"
  define rn where "rn = ''response_message''"
  define d where "d = declined_at"
  from assms have a: "dn \<notin> set (map col_name (cols db))" "rn \<in> set (map col_name (cols db))"
    by (simp_all add: dn_def rn_def)
  from assms have p: "planned db = [Get_db_engine, Inspect_engine, Get_columns, Add_column d]"
    by (simp add: planned_def column_names d_def)
  show "cols (snd (upgrade M db)) = cols db \<or> cols (snd (upgrade M db)) = cols db @ [declined_at]"
    using a unfolding upgrade_def upgrade_steps_def dn_def [symmetric] rn_def [symmetric]
      d_def [symmetric]
    by (simp add: mig_prims split: option.splits)
  show "fst (upgrade M db) = Inr (no_step_throws M db)"
    using a unfolding upgrade_def upgrade_steps_def no_step_throws_def p
      dn_def [symmetric] rn_def [symmetric] d_def [symmetric]
    by (simp add: mig_prims split: option.splits)
  show "no_step_throws M db \<longrightarrow> cols (snd (upgrade M db)) = cols db @ [declined_at]"
    using a unfolding upgrade_def upgrade_steps_def no_step_throws_def p
      dn_def [symmetric] rn_def [symmetric] d_def [symmetric]
    by (simp add: mig_prims split: option.splits)
qed

lemma upgrade_response_absent:
  assumes "''declined_at'' \<in> set (map col_name (cols db))"
    and "''response_message'' \<notin> set (map col_name (cols db))"
  shows "cols (snd (upgrade M db)) = cols db
           \<or> cols (snd (upgrade M db)) = cols db @ [response_message]"
    and "fst (upgrade M db) = Inr (no_step_throws M db)"
    and "no_step_throws M db \<longrightarrow> cols (snd (upgrade M db)) = cols db @ [response_message]"
proof -
  define dn where "dn = ''declined_at''"
  define rn where "rn = ''response_message''"
  define r where "r = response_message"
  from assms have a: "dn \<in> set (map col_name (cols db))" "rn \<notin> set (map col_name (cols db))"
    by (simp_all add: dn_def rn_def)
  from assms have p: "planned db = [Get_db_engine, Inspect_engine, Get_columns, Add_column r]"
    by (simp add: planned_def column_names r_def)
  show "cols (snd (upgrade M db)) = cols db
           \<or> cols (snd (upgrade M db)) = cols db @ [response_message]"
    using a unfolding upgrade_def upgrade_steps_def dn_def [symmetric] rn_def [symmetric]
      r_def [symmetric]
    by (simp add: mig_prims split: option.splits)
  show "fst (upgrade M db) = Inr (no_step_throws M db)"
    using a unfolding upgrade_def upgrade_steps_def no_step_throws_def p
      dn_def [symmetric] rn_def [symmetric] r_def [symmetric]
    by (simp add: mig_prims split: option.splits)
  show "no_step_throws M db \<longrightarrow> cols (snd (upgrade M db)) = cols db @ [response_message]"
    using a unfolding upgrade_def upgrade_steps_def no_step_throws_def p
      dn_def [symmetric] rn_def [symmetric] r_def [symmetric]
    by (simp add: mig_prims split: option.splits)
qed

lemma upgrade_both_absent:
  assumes "''declined_at'' \<notin> set (map col_name (cols db))"
    and "''response_message'' \<notin> set (map col_name (cols db))"
  shows "cols (snd (upgrade M db)) = cols db
           \<or> cols (snd (upgrade M db)) = cols db @ [declined_at]
           \<or> cols (snd (upgrade M db)) = cols db @ [declined_at, response_message]"
    and "fst (upgrade M db) = Inr (no_step_throws M db)"
    and "no_step_throws M db
           \<longrightarrow> cols (snd (upgrade M db)) = cols db @ [declined_at, response_message]"
proof -
  define dn where "dn = ''declined_at''"
  define rn where "rn = ''response_message''"
  define d where "d = declined_at"
  define r where "r = response_message"
  from assms have a: "dn \<notin> set (map col_name (cols db))" "rn \<notin> set (map col_name (cols db))"
    by (simp_all add: dn_def rn_def)
  from assms have p: "planned db
      = [Get_db_engine, Inspect_engine, Get_columns, Add_column d, Add_column r]"
    by (simp add: planned_def column_names d_def r_def)
  show "cols (snd (upgrade M db)) = cols db
           \<or> cols (snd (upgrade M db)) = cols db @ [declined_at]
           \<or> cols (snd (upgrade M db)) = cols db @ [declined_at, response_message]"
    using a unfolding upgrade_def upgrade_steps_def dn_def [symmetric] rn_def [symmetric]
      d_def [symmetric] r_def [symmetric]
    by (simp add: mig_prims split: option.splits)
  show "fst (upgrade M db) = Inr (no_step_throws M db)"
    using a unfolding upgrade_def upgrade_steps_def no_step_throws_def p
      dn_def [symmetric] rn_def [symmetric] d_def [symmetric] r_def [symmetric]
    by (simp add: mig_prims split: option.splits)
  show "no_step_throws M db
           \<longrightarrow> cols (snd (upgrade M db)) = cols db @ [declined_at, response_message]"
    using a unfolding upgrade_def upgrade_steps_def no_step_throws_def p
      dn_def [symmetric] rn_def [symmetric] d_def [symmetric] r_def [symmetric]
    by (simp add: mig_prims split: option.splits)
qed

lemma upgrade_appends:
  "\<exists>added. cols (snd (upgrade M db)) = cols db @ added
      \<and> set added \<subseteq> {declined_at, response_message} \<and> distinct added
      \<and> (\<forall>c \<in> set added. col_name c \<notin> set (map col_name (cols db)))"
proof -
  let ?names = "set (map col_name (cols db))"
  consider (both) "''declined_at'' \<in> ?names" "''response_message'' \<in> ?names"
    | (declined) "''declined_at'' \<notin> ?names" "''response_message'' \<in> ?names"
    | (response) "''declined_at'' \<in> ?names" "''response_message'' \<notin> ?names"
    | (neither) "''declined_at'' \<notin> ?names" "''response_message'' \<notin> ?names"
    by blast
  then show ?thesis
  proof cases
    case both
    from upgrade_both_present(1) [OF both] show ?thesis by (intro exI [of _ "[]"]) simp
  next
    case declined
    from upgrade_declined_absent(1) [OF declined, of M] show ?thesis
    proof
      assume "cols (snd (upgrade M db)) = cols db"
      then show ?thesis by (intro exI [of _ "[]"]) simp
    next
      assume "cols (snd (upgrade M db)) = cols db @ [declined_at]"
      with declined show ?thesis by (intro exI [of _ "[declined_at]"]) (simp add: column_names)
    qed
  next
    case response
    from upgrade_response_absent(1) [OF response, of M] show ?thesis
    proof
      assume "cols (snd (upgrade M db)) = cols db"
      then show ?thesis by (intro exI [of _ "[]"]) simp
    next
      assume "cols (snd (upgrade M db)) = cols db @ [response_message]"
      with response show ?thesis
        by (intro exI [of _ "[response_message]"]) (simp add: column_names)
    qed
  next
    case neither
    from upgrade_both_absent(1) [OF neither, of M] show ?thesis
    proof (elim disjE)
      assume "cols (snd (upgrade M db)) = cols db"
      then show ?thesis by (intro exI [of _ "[]"]) simp
    next
      assume "cols (snd (upgrade M db)) = cols db @ [declined_at]"
      with neither show ?thesis by (intro exI [of _ "[declined_at]"]) (simp add: column_names)
    next
      assume "cols (snd (upgrade M db)) = cols db @ [declined_at, response_message]"
      with neither show ?thesis
        by (intro exI [of _ "[declined_at, response_message]"]) (simp add: column_names)
    qed
  qed
qed

lemma upgrade_result: "fst (upgrade M db) = Inr (no_step_throws M db)"
  using upgrade_both_present(2) upgrade_declined_absent(2) upgrade_response_absent(2)
    upgrade_both_absent(2)
  by blast

lemma upgrade_success_columns:
  assumes "no_step_throws M db"
  shows "cols (snd (upgrade M db))
     = cols db @ filter (\<lambda>c. col_name c \<notin> set (map col_name (cols db)))
                   [declined_at, response_message]"
proof -
  let ?names = "set (map col_name (cols db))"
  consider (both) "''declined_at'' \<in> ?names" "''response_message'' \<in> ?names"
    | (declined) "''declined_at'' \<notin> ?names" "''response_message'' \<in> ?names"
    | (response) "''declined_at'' \<in> ?names" "''response_message'' \<notin> ?names"
    | (neither) "''declined_at'' \<notin> ?names" "''response_message'' \<notin> ?names"
    by blast
  then show ?thesis
  proof cases
    case both
    with upgrade_both_present(1) [OF both, of M] show ?thesis by (simp add: column_names)
  next
    case declined
    with upgrade_declined_absent(3) [OF declined, of M] assms show ?thesis
      by (simp add: column_names)
  next
    case response
    with upgrade_response_absent(3) [OF response, of M] assms show ?thesis
      by (simp add: column_names)
  next
    case neither
    with upgrade_both_absent(3) [OF neither, of M] assms show ?thesis
      by (simp add: column_names)
  qed
qed

lemma upgrade_success_has_both:
  assumes "fst (upgrade M db) = Inr True"
  shows "''declined_at'' \<in> set (map col_name (cols (snd (upgrade M db))))"
    and "''response_message'' \<in> set (map col_name (cols (snd (upgrade M db))))"
proof -
  from assms upgrade_result [of M db] have "no_step_throws M db" by simp
  from upgrade_success_columns [OF this]
  show "''declined_at'' \<in> set (map col_name (cols (snd (upgrade M db))))"
    and "''response_message'' \<in> set (map col_name (cols (snd (upgrade M db))))"
    by (auto simp add: column_names)
qed

text \<open>
  C10, as amended. \<^verbatim>\<open>upgrade()\<close> never raises: it returns \<open>True\<close> when no step throws and
  \<open>False\<close> when one does. It only appends, and only those of \<open>declined_at\<close> and
  \<open>response_message\<close> whose names the table does not have yet. Once a run has returned
  \<open>True\<close>, another run leaves the same columns, whatever fails during it.
\<close>

theorem upgrade_idempotent_after_success:
  "fst (upgrade M db) = Inr (no_step_throws M db)
   \<and> (\<exists>added. cols (snd (upgrade M db)) = cols db @ added
          \<and> set added \<subseteq> {declined_at, response_message} \<and> distinct added
          \<and> (\<forall>c \<in> set added. col_name c \<notin> set (map col_name (cols db))))
   \<and> (no_step_throws M db
        \<longrightarrow> cols (snd (upgrade M db))
            = cols db @ filter (\<lambda>c. col_name c \<notin> set (map col_name (cols db)))
                          [declined_at, response_message])
   \<and> (fst (upgrade M db) = Inr True
        \<longrightarrow> cols (snd (upgrade M' (snd (upgrade M db)))) = cols (snd (upgrade M db)))"
proof -
  have e: "fst (upgrade M db) = Inr True
        \<longrightarrow> cols (snd (upgrade M' (snd (upgrade M db)))) = cols (snd (upgrade M db))"
  proof
    assume s: "fst (upgrade M db) = Inr True"
    from upgrade_both_present(1) [OF upgrade_success_has_both [OF s]]
    show "cols (snd (upgrade M' (snd (upgrade M db)))) = cols (snd (upgrade M db))" .
  qed
  from upgrade_result [of M db] upgrade_appends [of M db] upgrade_success_columns [of M db] e
  show ?thesis by blast
qed

lemma no_step_throws_calm: "no_step_throws calm db"
proof -
  have "steps_succeed calm d sts" for d sts
    by (induction sts arbitrary: d) (simp_all add: calm_def)
  then show ?thesis by (simp add: no_step_throws_def)
qed

lemma old_table_names:
  "''declined_at'' \<notin> set (map col_name (cols old_database))"
  "''response_message'' \<notin> set (map col_name (cols old_database))"
  by (simp_all add: old_database_def old_table_def)

theorem upgrade_idempotent_after_success_witness:
  "no_step_throws calm old_database
   \<and> fst (upgrade calm old_database) = Inr True
   \<and> cols (snd (upgrade calm old_database)) = old_table @ [declined_at, response_message]
   \<and> cols (snd (upgrade locked (snd (upgrade calm old_database))))
       = cols (snd (upgrade calm old_database))
   \<and> cols (snd (upgrade calm (snd (upgrade calm old_database))))
       = cols (snd (upgrade calm old_database))
   \<and> \<not> no_step_throws locked old_database
   \<and> fst (upgrade locked old_database) = Inr False"
proof -
  note h = no_step_throws_calm [of old_database]
  have n: "\<not> no_step_throws locked old_database"
    using old_table_names
    by (simp add: no_step_throws_def planned_def locked_def column_names)
  have f: "cols old_database @ filter (\<lambda>c. col_name c \<notin> set (map col_name (cols old_database)))
             [declined_at, response_message] = old_table @ [declined_at, response_message]"
    using old_table_names by (simp add: column_names old_database_def)
  note u = upgrade_idempotent_after_success [of calm old_database locked]
  note v = upgrade_idempotent_after_success [of calm old_database calm]
  from u h have a: "fst (upgrade calm old_database) = Inr True" by simp
  from u h have "cols (snd (upgrade calm old_database))
      = cols old_database @ filter (\<lambda>c. col_name c \<notin> set (map col_name (cols old_database)))
          [declined_at, response_message]"
    by blast
  then have b: "cols (snd (upgrade calm old_database)) = old_table @ [declined_at, response_message]"
    by (simp only: f)
  from u a have c: "cols (snd (upgrade locked (snd (upgrade calm old_database))))
      = cols (snd (upgrade calm old_database))"
    by blast
  from v a have d: "cols (snd (upgrade calm (snd (upgrade calm old_database))))
      = cols (snd (upgrade calm old_database))"
    by blast
  from upgrade_idempotent_after_success [of locked old_database calm] n
  have e: "fst (upgrade locked old_database) = Inr False" by simp
  from h a b c d n e show ?thesis by blast
qed

text \<open>
  The claim as stated fails after a run that failed part of the way: the first run adds
  \<open>declined_at\<close>, fails on \<open>response_message\<close> and returns \<open>False\<close>; the second run
  adds \<open>response_message\<close>. Running twice then leaves a column more than running once.
\<close>

theorem upgrade_twice_differs_after_failed_run:
  "fst (upgrade flaky old_database) = Inr False
   \<and> cols (snd (upgrade flaky old_database)) = old_table @ [declined_at]
   \<and> fst (upgrade flaky (snd (upgrade flaky old_database))) = Inr True
   \<and> cols (snd (upgrade flaky (snd (upgrade flaky old_database))))
       = old_table @ [declined_at, response_message]
   \<and> cols (snd (upgrade flaky (snd (upgrade flaky old_database))))
       \<noteq> cols (snd (upgrade flaky old_database))"
proof -
  define dn where "dn = ''declined_at''"
  define rn where "rn = ''response_message''"
  have names: "dn \<notin> set (map col_name old_table)" "rn \<notin> set (map col_name old_table)"
    "col_name declined_at = dn" "col_name response_message = rn" "dn \<noteq> rn"
    "declined_at \<noteq> response_message"
    by (simp_all add: dn_def rn_def old_table_def column_names)
  have one: "upgrade flaky old_database
      = (Inr False, \<lparr>cols = old_table @ [declined_at],
           history = [Get_db_engine, Inspect_engine, Get_columns, Add_column declined_at,
                      Add_column response_message]\<rparr>)"
    using names names(6) [symmetric]
    unfolding upgrade_def upgrade_steps_def dn_def [symmetric] rn_def [symmetric]
    by (simp add: mig_prims flaky_def old_database_def)
  have two: "upgrade flaky \<lparr>cols = old_table @ [declined_at],
           history = [Get_db_engine, Inspect_engine, Get_columns, Add_column declined_at,
                      Add_column response_message]\<rparr>
      = (Inr True, \<lparr>cols = old_table @ [declined_at, response_message],
           history = [Get_db_engine, Inspect_engine, Get_columns, Add_column declined_at,
                      Add_column response_message, Get_db_engine, Inspect_engine, Get_columns,
                      Add_column response_message]\<rparr>)"
    using names names(6) [symmetric]
    unfolding upgrade_def upgrade_steps_def dn_def [symmetric] rn_def [symmetric]
    by (simp add: mig_prims flaky_def)
  from one two show ?thesis by simp
qed

end
